theory Spec2Isabelle
  imports Complex_Main "HOL-Library.Sublist" "HOL-Library.Log_Nat"
begin

section \<open>Numbers\<close>

text \<open>
  A JavaScript number is an IEEE 754 double. A finite double is represented by the
  rational number that it is; the two infinities and \<open>NaN\<close> are values of their own.
  The negative zero is identified with zero: the code never divides by a zero, and no
  comparison, \<open>||\<close>, \<open>!\<close>, \<open>String\<close> or \<open>JSON.stringify\<close> tells the two apart.
\<close>

datatype number = Fin rat | PosInf | NegInf | NotANumber

definition pow2 :: "int \<Rightarrow> rat" where
  "pow2 k = (if k \<ge> 0 then 2 ^ nat k else 1 / 2 ^ nat (- k))"

text \<open>The binary exponent of a positive rational \<open>x\<close>: the \<open>e\<close> with
  \<open>2^e \<le> x < 2^(e+1)\<close>, found from the bit lengths of numerator and denominator.\<close>

definition ilog2 :: "rat \<Rightarrow> int" where
  "ilog2 x =
     (case quotient_of x of (a, b) \<Rightarrow>
        let d = bitlen a - bitlen b in if pow2 d \<le> x then d else d - 1)"

definition round_half_even :: "rat \<Rightarrow> int" where
  "round_half_even y =
     (let n = \<lfloor>y\<rfloor>; r = y - of_int n in
      if r < 1 / 2 then n
      else if r > 1 / 2 then n + 1
      else if even n then n else n + 1)"

text \<open>
  \<open>fl x\<close>: the double nearest to the real number \<open>x\<close>, a tie going to the even
  significand (the rounding of every arithmetic operation). A double has 53 significant
  bits: \<open>x\<close> is rounded to a multiple \<open>n * 2^(e - 52)\<close> of the spacing at its binary
  exponent \<open>e\<close>. Below \<open>2^-1022\<close> the spacing stays \<open>2^-1074\<close> (subnormal numbers);
  a result that rounds to \<open>2^1024\<close> or beyond (an exponent above 1023, or the
  exponent 1023 with \<open>n\<close> rounded up to \<open>2^53\<close>) is an infinity.
\<close>

definition fl :: "rat \<Rightarrow> number" where
  "fl x =
     (if x = 0 then Fin 0
      else
        let e = max (ilog2 \<bar>x\<bar>) (- 1022);
            n = round_half_even (x / pow2 (e - 52))
        in if e > 1023 \<or> e = 1023 \<and> \<bar>n\<bar> \<ge> 9007199254740992
           then (if x > 0 then PosInf else NegInf)
           else Fin (of_int n * pow2 (e - 52)))"

text \<open>A rational that is a double, and the double that a decimal literal of the source
  denotes.\<close>

definition is_double :: "rat \<Rightarrow> bool" where
  "is_double x \<longleftrightarrow> fl x = Fin x"

definition double_literal :: "rat \<Rightarrow> rat" where
  "double_literal x = (case fl x of Fin r \<Rightarrow> r | _ \<Rightarrow> 0)"

text \<open>\<open>a + b\<close>, \<open>a * b\<close> and \<open>a / b\<close> on numbers.\<close>

fun js_add :: "number \<Rightarrow> number \<Rightarrow> number" where
  "js_add (Fin x) (Fin y) = fl (x + y)"
| "js_add a b =
     (if a = NotANumber \<or> b = NotANumber then NotANumber
      else if a = PosInf \<and> b = NegInf \<or> a = NegInf \<and> b = PosInf then NotANumber
      else if a = PosInf \<or> b = PosInf then PosInf
      else NegInf)"

text \<open>The sign of a number that is not \<open>NaN\<close>: -1, 0 or 1.\<close>

fun number_sign :: "number \<Rightarrow> int" where
  "number_sign (Fin x) = (if x > 0 then 1 else if x < 0 then - 1 else 0)"
| "number_sign PosInf = 1"
| "number_sign NegInf = - 1"
| "number_sign NotANumber = 0"

definition signed_infinity :: "int \<Rightarrow> number" where
  "signed_infinity s = (if s > 0 then PosInf else if s < 0 then NegInf else NotANumber)"

fun js_mul :: "number \<Rightarrow> number \<Rightarrow> number" where
  "js_mul (Fin x) (Fin y) = fl (x * y)"
| "js_mul a b =
     (if a = NotANumber \<or> b = NotANumber then NotANumber
      else signed_infinity (number_sign a * number_sign b))"

fun js_div :: "number \<Rightarrow> number \<Rightarrow> number" where
  "js_div (Fin x) (Fin y) = (if y = 0 then signed_infinity (number_sign (Fin x)) else fl (x / y))"
| "js_div a b =
     (if a = NotANumber \<or> b = NotANumber then NotANumber
      else case b of
             Fin y \<Rightarrow> signed_infinity (number_sign a * (if y < 0 then - 1 else 1))
           | _ \<Rightarrow> (case a of Fin x \<Rightarrow> Fin 0 | _ \<Rightarrow> NotANumber))"

text \<open>\<open>a > b\<close> and \<open>a >= b\<close>: false as soon as one side is \<open>NaN\<close>.\<close>

fun js_gt :: "number \<Rightarrow> number \<Rightarrow> bool" where
  "js_gt (Fin x) (Fin y) = (x > y)"
| "js_gt a b = (a \<noteq> NotANumber \<and> b \<noteq> NotANumber \<and> a \<noteq> b \<and> (a = PosInf \<or> b = NegInf))"

definition js_ge :: "number \<Rightarrow> number \<Rightarrow> bool" where
  "js_ge a b \<longleftrightarrow> a \<noteq> NotANumber \<and> b \<noteq> NotANumber \<and> (a = b \<or> js_gt a b)"

text \<open>\<open>Math.round\<close>: the nearest integer, a tie going up. The integer nearest to a
  double is a double.\<close>

fun math_round :: "number \<Rightarrow> number" where
  "math_round (Fin x) = Fin (of_int \<lfloor>x + 1 / 2\<rfloor>)"
| "math_round a = a"

section \<open>Runtime values\<close>

text \<open>
  Answers are typed \<open>any\<close> in the source (\<open>FormValues\<close> is an index signature over
  \<open>any\<close>), so they are modelled as a datatype of JavaScript values. A number answer is
  a finite double (\<open>JNum\<close>) or \<open>NaN\<close>. A \<open>File\<close> object (what the file field
  stores) carries its name, MIME type and size. An object is the list of its own
  properties in insertion order. \<open>JFunction name n\<close> is a built-in function with that
  \<open>name\<close> and \<open>length\<close>, and \<open>JObjectPrototype\<close> is \<open>Object.prototype\<close>: the
  values that a plain object inherits.
\<close>

datatype jsval =
    JUndefined
  | JNull
  | JBool bool
  | JNum rat
  | JNaN
  | JStr string
  | JArr "jsval list"
  | JObj "(string \<times> jsval) list"
  | JFile string string rat
  | JFunction string nat
  | JObjectPrototype

text \<open>\<open>!!v\<close>: the falsy values are undefined, null, false, 0, NaN and the empty string.\<close>

fun truthy :: "jsval \<Rightarrow> bool" where
  "truthy JUndefined = False"
| "truthy JNull = False"
| "truthy (JBool b) = b"
| "truthy (JNum n) = (n \<noteq> 0)"
| "truthy JNaN = False"
| "truthy (JStr s) = (s \<noteq> [])"
| "truthy (JArr xs) = True"
| "truthy (JObj kvs) = True"
| "truthy (JFile n t sz) = True"
| "truthy (JFunction n a) = True"
| "truthy JObjectPrototype = True"

fun isArray :: "jsval \<Rightarrow> bool" where
  "isArray (JArr xs) = True"
| "isArray v = False"

text \<open>\<open>answer.length\<close> of an array (only read behind \<open>Array.isArray\<close>).\<close>

fun array_length :: "jsval \<Rightarrow> nat" where
  "array_length (JArr xs) = length xs"
| "array_length v = 0"

text \<open>What the code can throw.\<close>

datatype js_error = QuotaExceededError | SyntaxError | TypeError | Error string

text \<open>
  The properties that every plain object inherits from \<open>Object.prototype\<close>: eleven
  functions and the accessor \<open>__proto__\<close>, which gives the prototype itself.
\<close>

definition object_prototype :: "(string \<times> jsval) list" where
  "object_prototype =
     [(''constructor'', JFunction ''Object'' 1),
      (''__defineGetter__'', JFunction ''__defineGetter__'' 2),
      (''__defineSetter__'', JFunction ''__defineSetter__'' 2),
      (''hasOwnProperty'', JFunction ''hasOwnProperty'' 1),
      (''__lookupGetter__'', JFunction ''__lookupGetter__'' 1),
      (''__lookupSetter__'', JFunction ''__lookupSetter__'' 1),
      (''isPrototypeOf'', JFunction ''isPrototypeOf'' 1),
      (''propertyIsEnumerable'', JFunction ''propertyIsEnumerable'' 1),
      (''toString'', JFunction ''toString'' 0),
      (''valueOf'', JFunction ''valueOf'' 0),
      (''__proto__'', JObjectPrototype),
      (''toLocaleString'', JFunction ''toLocaleString'' 0)]"

definition inherited :: "string \<Rightarrow> bool" where
  "inherited k \<longleftrightarrow> k \<in> set (map fst object_prototype)"

text \<open>
  \<open>FormValues\<close>: a plain object from question ids to answers. \<open>formValues[k]\<close>
  is the own property \<open>k\<close> if there is one, else the property of that name inherited
  from \<open>Object.prototype\<close>, else \<open>undefined\<close>.
\<close>

type_synonym formValues = "(string \<times> jsval) list"

definition lookup :: "formValues \<Rightarrow> string \<Rightarrow> jsval" where
  "lookup vs k =
     (case map_of vs k of
        Some v \<Rightarrow> v
      | None \<Rightarrow> (case map_of object_prototype k of Some v \<Rightarrow> v | None \<Rightarrow> JUndefined))"

section \<open>Schema model (types/form.ts)\<close>

datatype qtype = QText | QNumber | QSelect | QCheckbox | QFile | QDate

text \<open>\<open>options: string[] | SelectOption[]\<close>, with \<open>riskValue?: number\<close>.\<close>

datatype select_option =
    OptString string
  | OptObject string string "rat option"

text \<open>\<open>answer: string | string[] | number | boolean\<close>; \<open>operator\<close> is optional and,
  at run time, any string.\<close>

datatype cond_answer = AStr string | AStrs "string list" | ANum rat | ABool bool

record conditionalLogic =
  questionId :: string
  answer :: cond_answer
  operator :: "string option"

datatype validate_result = VTrue | VFalse | VMessage string

record validationRule =
  rule_type :: string
  message :: string
  validate :: "(jsval \<Rightarrow> validate_result) option"

text \<open>
  A question: the fields of \<open>BaseQuestion\<close>, then those of the six question types
  (\<open>min\<close> and \<open>max\<close> of a number question are \<open>minValue\<close> and \<open>maxValue\<close>).
  An optional field that is absent is \<open>None\<close>; \<open>required\<close> absent is \<open>False\<close>.
\<close>

record question =
  qid :: string
  type :: qtype
  label :: string
  required :: bool
  riskWeight :: "rat option"
  conditional :: "conditionalLogic option"
  validation :: "validationRule list option"
  options :: "select_option list option"
  minLength :: "rat option"
  maxLength :: "rat option"
  pattern :: "string option"
  minValue :: "rat option"
  maxValue :: "rat option"
  minDate :: "string option"
  maxDate :: "string option"
  accept :: "string option"
  maxSize :: "rat option"

record formSection =
  sid :: string
  title :: string
  questions :: "question list"

record formConfig =
  fid :: string
  ftitle :: string
  sections :: "formSection list"
  maxRiskScore :: "rat option"

section \<open>Risk scoring engine (utils/riskCalculation.ts)\<close>

text \<open>\<open>x || w\<close> on an optional number: \<open>w\<close> when \<open>x\<close> is undefined or 0.\<close>

definition or_number :: "rat option \<Rightarrow> rat \<Rightarrow> rat" where
  "or_number x w = (case x of None \<Rightarrow> w | Some r \<Rightarrow> if r = 0 then w else r)"

text \<open>The callback of \<open>question.options.find\<close>:
  \<open>typeof opt === 'string' ? opt === val : opt.value === val\<close>.\<close>

fun option_matches :: "jsval \<Rightarrow> select_option \<Rightarrow> bool" where
  "option_matches val (OptString s) = (val = JStr s)"
| "option_matches val (OptObject l v r) = (val = JStr v)"

text \<open>\<open>(option as any)?.riskValue\<close>: undefined when nothing was found, when the option
  is a bare string, and when the option object has no \<open>riskValue\<close>.\<close>

fun riskValue_of :: "select_option option \<Rightarrow> rat option" where
  "riskValue_of None = None"
| "riskValue_of (Some (OptString s)) = None"
| "riskValue_of (Some (OptObject l v r)) = r"

definition option_score :: "select_option list \<Rightarrow> rat \<Rightarrow> jsval \<Rightarrow> rat" where
  "option_score opts weight val =
     or_number (riskValue_of (find (option_matches val) opts)) weight"

definition answer_is_empty :: "jsval \<Rightarrow> bool" where
  "answer_is_empty a \<longleftrightarrow>
     \<not> truthy a \<or> a = JStr [] \<or> (isArray a \<and> array_length a = 0)"

text \<open>\<open>riskValues.reduce((a, b) => a + b, 0)\<close>: the values are added from left to
  right, each sum rounded.\<close>

definition reduce_add :: "rat list \<Rightarrow> number" where
  "reduce_add xs = foldl (\<lambda>a b. js_add a (Fin b)) (Fin 0) xs"

definition calculateQuestionRiskScore :: "question \<Rightarrow> jsval \<Rightarrow> number" where
  "calculateQuestionRiskScore q a =
     (if answer_is_empty a then Fin 0
      else
        let weight = or_number (riskWeight q) 0 in
        case options q of
          Some opts \<Rightarrow>
            if type q = QSelect \<or> type q = QCheckbox then
              (case a of
                 JArr vals \<Rightarrow>
                   if type q = QCheckbox then
                     (let riskValues = map (option_score opts weight) vals in
                      if length riskValues > 0
                      then js_div (reduce_add riskValues) (Fin (of_nat (length riskValues)))
                      else Fin weight)
                   else Fin (option_score opts weight a)
               | _ \<Rightarrow> Fin (option_score opts weight a))
            else Fin weight
        | None \<Rightarrow> Fin weight)"

datatype risk_level = Low | Medium | High | Critical

record breakdown_entry =
  score :: number
  entryMaxScore :: number
  entryPercentage :: number

record riskScore =
  totalScore :: number
  maxScore :: number
  percentage :: number
  level :: risk_level
  breakdown :: "string \<rightharpoonup> breakdown_entry"

text \<open>
  One turn of the inner \<open>forEach\<close>: the four running sums
  (\<open>sectionScore\<close>, \<open>sectionMaxScore\<close>, \<open>totalScore\<close>, \<open>maxScore\<close>).
\<close>

definition question_step ::
  "formValues \<Rightarrow> number \<times> number \<times> number \<times> number \<Rightarrow> question
     \<Rightarrow> number \<times> number \<times> number \<times> number" where
  "question_step vs acc q =
     (case acc of (sectionScore, sectionMaxScore, totalAcc, maxAcc) \<Rightarrow>
        let maxScoreForQuestion = Fin (or_number (riskWeight q) 0);
            questionScore = calculateQuestionRiskScore q (lookup vs (qid q))
        in (js_add sectionScore questionScore, js_add sectionMaxScore maxScoreForQuestion,
            js_add totalAcc questionScore, js_add maxAcc maxScoreForQuestion))"

text \<open>\<open>max > 0 ? (score / max) * 100 : 0\<close>, the percentage of a section and of the
  whole form.\<close>

definition percent :: "number \<Rightarrow> number \<Rightarrow> number" where
  "percent sc mx = (if js_gt mx (Fin 0) then js_mul (js_div sc mx) (Fin 100) else Fin 0)"

text \<open>One turn of the outer \<open>forEach\<close>: the breakdown and the two global sums.\<close>

definition section_step ::
  "formValues \<Rightarrow> (string \<rightharpoonup> breakdown_entry) \<times> number \<times> number \<Rightarrow> formSection
     \<Rightarrow> (string \<rightharpoonup> breakdown_entry) \<times> number \<times> number" where
  "section_step vs acc s =
     (case acc of (bd, totalAcc, maxAcc) \<Rightarrow>
        case foldl (question_step vs) (Fin 0, Fin 0, totalAcc, maxAcc) (questions s) of
          (sectionScore, sectionMaxScore, totalAcc', maxAcc') \<Rightarrow>
            (bd(sid s \<mapsto>
               \<lparr> score = sectionScore,
                 entryMaxScore = sectionMaxScore,
                 entryPercentage = percent sectionScore sectionMaxScore \<rparr>),
             totalAcc', maxAcc'))"

definition risk_level_of :: "number \<Rightarrow> risk_level" where
  "risk_level_of normalizedScore =
     (if js_ge normalizedScore (Fin 75) then Critical
      else if js_ge normalizedScore (Fin 50) then High
      else if js_ge normalizedScore (Fin 25) then Medium
      else Low)"

definition calculateRiskScore :: "formConfig \<Rightarrow> formValues \<Rightarrow> riskScore" where
  "calculateRiskScore cfg vs =
     (case foldl (section_step vs) (Map.empty, Fin 0, Fin 0) (sections cfg) of
        (bd, totalAcc, maxAcc) \<Rightarrow>
          let maxScoreConfig = Fin (or_number (maxRiskScore cfg) 100);
              pct = percent totalAcc maxAcc;
              normalizedScore = js_mul (js_div pct (Fin 100)) maxScoreConfig
          in \<lparr> totalScore = math_round normalizedScore,
               maxScore = maxScoreConfig,
               percentage = math_round pct,
               level = risk_level_of normalizedScore,
               breakdown = bd \<rparr>)"

section \<open>Condition evaluator and validation engine (utils/validation.ts)\<close>

text \<open>
  The operations of the JavaScript runtime that depend on the number format, on Unicode,
  on the regular expression engine or on the date parser are parameters of the model:
  \<open>numberToString\<close> is \<open>String(n)\<close> on a finite number; \<open>functionToString\<close>
  is the text of the built-in function of that name; \<open>stringToNumber\<close> is
  \<open>Number(s)\<close> on a string, \<open>None\<close> standing for \<open>NaN\<close>; \<open>toLowerCase\<close> and
  \<open>trim\<close> are the string methods; \<open>regexTest p s\<close> is \<open>new RegExp(p).test(s)\<close>,
  \<open>None\<close> when \<open>p\<close> is no regular expression (a \<open>SyntaxError\<close>); \<open>dateTime v\<close>
  is \<open>new Date(v).getTime()\<close>, \<open>None\<close> for an invalid date. Everything proved below
  holds for every such runtime.
\<close>

record runtime =
  numberToString :: "rat \<Rightarrow> string"
  functionToString :: "string \<Rightarrow> string"
  stringToNumber :: "string \<Rightarrow> rat option"
  toLowerCase :: "string \<Rightarrow> string"
  trim :: "string \<Rightarrow> string"
  regexTest :: "string \<Rightarrow> string \<Rightarrow> bool option"
  dateTime :: "jsval \<Rightarrow> rat option"

fun join_comma :: "string list \<Rightarrow> string" where
  "join_comma [] = []"
| "join_comma [s] = s"
| "join_comma (s # t # ss) = s @ '','' @ join_comma (t # ss)"

text \<open>\<open>String(v)\<close>. An array is joined with commas, null and undefined elements
  giving the empty string.\<close>

fun js_String :: "runtime \<Rightarrow> jsval \<Rightarrow> string"
  and js_elements :: "runtime \<Rightarrow> jsval list \<Rightarrow> string list" where
  "js_String rt JUndefined = ''undefined''"
| "js_String rt JNull = ''null''"
| "js_String rt (JBool b) = (if b then ''true'' else ''false'')"
| "js_String rt (JNum n) = numberToString rt n"
| "js_String rt JNaN = ''NaN''"
| "js_String rt (JStr s) = s"
| "js_String rt (JArr xs) = join_comma (js_elements rt xs)"
| "js_String rt (JObj kvs) = ''[object Object]''"
| "js_String rt (JFile n t sz) = ''[object File]''"
| "js_String rt (JFunction n a) = functionToString rt n"
| "js_String rt JObjectPrototype = ''[object Object]''"
| "js_elements rt [] = []"
| "js_elements rt (x # xs) =
     (if x = JUndefined \<or> x = JNull then [] else js_String rt x) # js_elements rt xs"

text \<open>\<open>Number(v)\<close>, \<open>None\<close> for \<open>NaN\<close>. An array or object goes through its string.\<close>

fun js_Number :: "runtime \<Rightarrow> jsval \<Rightarrow> rat option" where
  "js_Number rt JUndefined = None"
| "js_Number rt JNull = Some 0"
| "js_Number rt (JBool b) = Some (if b then 1 else 0)"
| "js_Number rt (JNum n) = Some n"
| "js_Number rt JNaN = None"
| "js_Number rt (JStr s) = stringToNumber rt s"
| "js_Number rt v = stringToNumber rt (js_String rt v)"

text \<open>\<open>a > b\<close> and \<open>a < b\<close> on numbers: false as soon as one side is \<open>NaN\<close>.\<close>

fun number_gt :: "rat option \<Rightarrow> rat option \<Rightarrow> bool" where
  "number_gt (Some a) (Some b) = (a > b)"
| "number_gt x y = False"

fun number_lt :: "rat option \<Rightarrow> rat option \<Rightarrow> bool" where
  "number_lt (Some a) (Some b) = (a < b)"
| "number_lt x y = False"

text \<open>
  \<open>a === b\<close>: primitives are compared by value and \<open>NaN\<close> equals nothing. Arrays,
  objects, files and functions are compared by identity; the operands compared here come
  from two places (the schema and the form state), so two of them are never the same
  object.
  \<open>Array.prototype.includes\<close> compares with SameValueZero, which differs from
  \<open>===\<close> only in that \<open>NaN\<close> equals \<open>NaN\<close>.
\<close>

fun strict_equal :: "jsval \<Rightarrow> jsval \<Rightarrow> bool" where
  "strict_equal (JArr xs) b = False"
| "strict_equal (JObj kvs) b = False"
| "strict_equal (JFile n t sz) b = False"
| "strict_equal (JFunction n a) b = False"
| "strict_equal JObjectPrototype b = False"
| "strict_equal JNaN b = False"
| "strict_equal a b = (a = b)"

fun same_value_zero :: "jsval \<Rightarrow> jsval \<Rightarrow> bool" where
  "same_value_zero (JArr xs) b = False"
| "same_value_zero (JObj kvs) b = False"
| "same_value_zero (JFile n t sz) b = False"
| "same_value_zero (JFunction n a) b = False"
| "same_value_zero JObjectPrototype b = False"
| "same_value_zero a b = (a = b)"

definition array_includes :: "jsval list \<Rightarrow> jsval \<Rightarrow> bool" where
  "array_includes xs v = list_ex (\<lambda>x. same_value_zero x v) xs"

text \<open>\<open>s.includes(sub)\<close> on strings.\<close>

definition string_includes :: "string \<Rightarrow> string \<Rightarrow> bool" where
  "string_includes s sub = sublist sub s"

fun answer_val :: "cond_answer \<Rightarrow> jsval" where
  "answer_val (AStr s) = JStr s"
| "answer_val (AStrs ss) = JArr (map JStr ss)"
| "answer_val (ANum n) = JNum n"
| "answer_val (ABool b) = JBool b"

text \<open>\<open>const { questionId, answer, operator = 'equals' } = ...\<close>\<close>

definition operator_or_equals :: "conditionalLogic \<Rightarrow> string" where
  "operator_or_equals c = (case operator c of None \<Rightarrow> ''equals'' | Some op \<Rightarrow> op)"

text \<open>The \<open>equals\<close> case, written the same way in both evaluators.\<close>

definition equals_case :: "cond_answer \<Rightarrow> jsval \<Rightarrow> bool" where
  "equals_case ans currentValue =
     (case ans of
        AStrs ss \<Rightarrow>
          (case currentValue of
             JArr cv \<Rightarrow> list_ex (\<lambda>a. array_includes cv (JStr a)) ss
           | _ \<Rightarrow> array_includes (map JStr ss) currentValue)
      | _ \<Rightarrow> strict_equal currentValue (answer_val ans))"

definition isFieldVisible :: "runtime \<Rightarrow> question \<Rightarrow> formValues \<Rightarrow> bool" where
  "isFieldVisible rt q vs =
     (case conditional q of
        None \<Rightarrow> True
      | Some c \<Rightarrow>
          let ans = answer c;
              op = operator_or_equals c;
              currentValue = lookup vs (questionId c)
          in
          if currentValue = JUndefined \<or> currentValue = JNull \<or> currentValue = JStr [] then False
          else if op = ''equals'' then equals_case ans currentValue
          else if op = ''includes'' then
            (case currentValue of
               JArr cv \<Rightarrow>
                 (case ans of
                    AStrs ss \<Rightarrow> list_ex (\<lambda>a. array_includes cv (JStr a)) ss
                  | _ \<Rightarrow> array_includes cv (answer_val ans))
             | _ \<Rightarrow> string_includes (js_String rt currentValue) (js_String rt (answer_val ans)))
          else if op = ''greaterThan'' then
            number_gt (js_Number rt currentValue) (js_Number rt (answer_val ans))
          else if op = ''lessThan'' then
            number_lt (js_Number rt currentValue) (js_Number rt (answer_val ans))
          else True)"

definition evaluateCondition :: "runtime \<Rightarrow> conditionalLogic option \<Rightarrow> jsval \<Rightarrow> bool" where
  "evaluateCondition rt cond currentValue =
     (case cond of
        None \<Rightarrow> True
      | Some c \<Rightarrow>
          let ans = answer c;
              op = operator_or_equals c
          in
          if op = ''equals'' then equals_case ans currentValue
          else if op = ''includes'' then
            (case currentValue of
               JArr cv \<Rightarrow> array_includes cv (answer_val ans)
             | _ \<Rightarrow> string_includes (js_String rt currentValue) (js_String rt (answer_val ans)))
          else if op = ''greaterThan'' then
            number_gt (js_Number rt currentValue) (js_Number rt (answer_val ans))
          else if op = ''lessThan'' then
            number_lt (js_Number rt currentValue) (js_Number rt (answer_val ans))
          else False)"

text \<open>Truthiness of an optional number and of an optional string of the schema.\<close>

definition number_truthy :: "rat option \<Rightarrow> bool" where
  "number_truthy x \<longleftrightarrow> (case x of None \<Rightarrow> False | Some n \<Rightarrow> n \<noteq> 0)"

definition string_truthy :: "string option \<Rightarrow> bool" where
  "string_truthy d \<longleftrightarrow> (case d of None \<Rightarrow> False | Some s \<Rightarrow> s \<noteq> [])"

text \<open>An optional number or string inside a template literal.\<close>

definition number_text :: "runtime \<Rightarrow> rat option \<Rightarrow> string" where
  "number_text rt x = (case x of None \<Rightarrow> ''undefined'' | Some n \<Rightarrow> numberToString rt n)"

definition string_text :: "string option \<Rightarrow> string" where
  "string_text x = (case x of None \<Rightarrow> ''undefined'' | Some s \<Rightarrow> s)"

text \<open>\<open>value.length\<close> as a number, for a value that is neither null nor undefined:
  strings, arrays and functions have one, an object may have a property of that name.\<close>

fun js_length :: "runtime \<Rightarrow> jsval \<Rightarrow> rat option" where
  "js_length rt (JStr s) = Some (of_nat (length s))"
| "js_length rt (JArr xs) = Some (of_nat (length xs))"
| "js_length rt (JObj kvs) = js_Number rt (lookup kvs ''length'')"
| "js_length rt (JFunction n a) = Some (of_nat a)"
| "js_length rt v = None"

text \<open>A \<open>case\<close> of the \<open>switch\<close> either returns from \<open>validateField\<close> or breaks out
  to the custom rules.\<close>

datatype switch_result = Return "string option" | Break

definition text_case :: "runtime \<Rightarrow> question \<Rightarrow> jsval \<Rightarrow> js_error + switch_result" where
  "text_case rt q v =
     (if number_truthy (minLength q) \<and> number_lt (js_length rt v) (minLength q)
      then Inr (Return (Some (''Minimum length is '' @ number_text rt (minLength q) @ '' characters'')))
      else if number_truthy (maxLength q) \<and> number_gt (js_length rt v) (maxLength q)
      then Inr (Return (Some (''Maximum length is '' @ number_text rt (maxLength q) @ '' characters'')))
      else if string_truthy (pattern q)
      then (case regexTest rt (string_text (pattern q)) (js_String rt v) of
              None \<Rightarrow> Inl SyntaxError
            | Some matches \<Rightarrow>
                if \<not> matches then Inr (Return (Some (''Invalid format for '' @ label q)))
                else Inr Break)
      else Inr Break)"

definition number_case :: "runtime \<Rightarrow> question \<Rightarrow> jsval \<Rightarrow> js_error + switch_result" where
  "number_case rt q v =
     (let numValue = js_Number rt v in
      if numValue = None then Inr (Return (Some ''Please enter a valid number''))
      else if minValue q \<noteq> None \<and> number_lt numValue (minValue q)
      then Inr (Return (Some (''Minimum value is '' @ number_text rt (minValue q))))
      else if maxValue q \<noteq> None \<and> number_gt numValue (maxValue q)
      then Inr (Return (Some (''Maximum value is '' @ number_text rt (maxValue q))))
      else Inr Break)"

definition date_case :: "runtime \<Rightarrow> question \<Rightarrow> jsval \<Rightarrow> js_error + switch_result" where
  "date_case rt q v =
     (let dateValue = dateTime rt v in
      if dateValue = None then Inr (Return (Some ''Please enter a valid date''))
      else if string_truthy (minDate q) \<and>
              number_lt dateValue (dateTime rt (JStr (string_text (minDate q))))
      then Inr (Return (Some (''Date cannot be before '' @ string_text (minDate q))))
      else if string_truthy (maxDate q) \<and>
              number_gt dateValue (dateTime rt (JStr (string_text (maxDate q))))
      then Inr (Return (Some (''Date cannot be after '' @ string_text (maxDate q))))
      else Inr Break)"

text \<open>\<open>s.split(c)\<close> for a one-character separator: never the empty list.\<close>

fun split_on :: "char \<Rightarrow> string \<Rightarrow> string list" where
  "split_on c [] = [[]]"
| "split_on c (x # xs) =
     (if x = c then [] # split_on c xs
      else (case split_on c xs of
              [] \<Rightarrow> [[x]]
            | y # ys \<Rightarrow> (x # y) # ys))"

text \<open>
  The properties that \<open>validateFileUpload\<close> reads from a file. A \<open>File\<close> has them
  all; a plain object has those it carries; reading a property of null or undefined, or
  calling \<open>split\<close> or \<open>includes\<close> on what is neither string nor (for \<open>includes\<close>)
  array, is a \<open>TypeError\<close>.
\<close>

fun file_name :: "jsval \<Rightarrow> js_error + string" where
  "file_name (JFile n t sz) = Inr n"
| "file_name (JFunction n a) = Inr n"
| "file_name (JObj kvs) = (case lookup kvs ''name'' of JStr s \<Rightarrow> Inr s | _ \<Rightarrow> Inl TypeError)"
| "file_name v = Inl TypeError"

fun file_type_includes :: "jsval \<Rightarrow> string \<Rightarrow> js_error + bool" where
  "file_type_includes (JFile n t sz) tok = Inr (string_includes t tok)"
| "file_type_includes (JObj kvs) tok =
     (case lookup kvs ''type'' of
        JStr s \<Rightarrow> Inr (string_includes s tok)
      | JArr xs \<Rightarrow> Inr (array_includes xs (JStr tok))
      | _ \<Rightarrow> Inl TypeError)"
| "file_type_includes v tok = Inl TypeError"

fun file_size :: "runtime \<Rightarrow> jsval \<Rightarrow> js_error + rat option" where
  "file_size rt (JFile n t sz) = Inr (Some sz)"
| "file_size rt (JObj kvs) = Inr (js_Number rt (lookup kvs ''size''))"
| "file_size rt JNull = Inl TypeError"
| "file_size rt JUndefined = Inl TypeError"
| "file_size rt v = Inr None"

text \<open>\<open>acceptedTypes.some(...)\<close>: the accepted types are tried in order, up to the first
  that accepts.\<close>

fun some_accepts :: "runtime \<Rightarrow> string \<Rightarrow> jsval \<Rightarrow> string list \<Rightarrow> js_error + bool" where
  "some_accepts rt fileExtension file [] = Inr False"
| "some_accepts rt fileExtension file (t # ts) =
     (if prefix ''.'' t then
        (if toLowerCase rt fileExtension = toLowerCase rt t then Inr True
         else some_accepts rt fileExtension file ts)
      else
        (case file_type_includes file t of
           Inl e \<Rightarrow> Inl e
         | Inr found \<Rightarrow> if found then Inr True else some_accepts rt fileExtension file ts))"

text \<open>\<open>file.size > fileQuestion.maxSize * 1024 * 1024\<close>, the size being a number or
  \<open>NaN\<close>.\<close>

definition size_exceeds :: "rat option \<Rightarrow> rat option \<Rightarrow> bool" where
  "size_exceeds sz mx =
     (case (sz, mx) of
        (Some s, Some m) \<Rightarrow> js_gt (Fin s) (js_mul (js_mul (Fin m) (Fin 1024)) (Fin 1024))
      | _ \<Rightarrow> False)"

definition size_check :: "runtime \<Rightarrow> question \<Rightarrow> jsval \<Rightarrow> js_error + string option" where
  "size_check rt q file =
     (if number_truthy (maxSize q) then
        (case file_size rt file of
           Inl e \<Rightarrow> Inl e
         | Inr sz \<Rightarrow>
             if size_exceeds sz (maxSize q)
             then Inr (Some (''File size exceeds '' @ number_text rt (maxSize q) @ ''MB limit''))
             else Inr None)
      else Inr None)"

definition validateFileUpload :: "runtime \<Rightarrow> jsval \<Rightarrow> question \<Rightarrow> js_error + string option" where
  "validateFileUpload rt file q =
     (if string_truthy (accept q) then
        (let acceptedTypes = map (trim rt) (split_on CHR '','' (string_text (accept q))) in
         case file_name file of
           Inl e \<Rightarrow> Inl e
         | Inr name \<Rightarrow>
             (let fileExtension = ''.'' @ toLowerCase rt (last (split_on CHR ''.'' name)) in
              case some_accepts rt fileExtension file acceptedTypes of
                Inl e \<Rightarrow> Inl e
              | Inr isAccepted \<Rightarrow>
                  if \<not> isAccepted
                  then Inr (Some (''File type not supported. Accepted types: ''
                                   @ string_text (accept q)))
                  else size_check rt q file))
      else size_check rt q file)"

text \<open>The loop over the files of an array: the first error that is a non-empty string is
  returned.\<close>

fun files_case :: "runtime \<Rightarrow> question \<Rightarrow> jsval list \<Rightarrow> js_error + switch_result" where
  "files_case rt q [] = Inr Break"
| "files_case rt q (file # files) =
     (case validateFileUpload rt file q of
        Inl e \<Rightarrow> Inl e
      | Inr None \<Rightarrow> files_case rt q files
      | Inr (Some fileError) \<Rightarrow>
          if fileError \<noteq> [] then Inr (Return (Some fileError)) else files_case rt q files)"

fun file_case :: "runtime \<Rightarrow> question \<Rightarrow> jsval \<Rightarrow> js_error + switch_result" where
  "file_case rt q (JArr files) = files_case rt q files"
| "file_case rt q (JFile n t sz) =
     (case validateFileUpload rt (JFile n t sz) q of
        Inl e \<Rightarrow> Inl e
      | Inr r \<Rightarrow> Inr (Return r))"
| "file_case rt q v = Inr Break"

definition choice_case :: "question \<Rightarrow> jsval \<Rightarrow> js_error + switch_result" where
  "choice_case q v =
     (if isArray v \<and> array_length v = 0 \<and> required q
      then Inr (Return (Some (''Please select at least one option for '' @ label q)))
      else Inr Break)"

text \<open>The custom rules, in order: the first rule of type \<open>custom\<close> whose \<open>validate\<close>
  does not return \<open>true\<close> gives the error, its string or else the rule's message.\<close>

fun custom_rules :: "validationRule list \<Rightarrow> jsval \<Rightarrow> string option" where
  "custom_rules [] v = None"
| "custom_rules (rule # rules) v =
     (if rule_type rule = ''custom'' then
        (case validate rule of
           None \<Rightarrow> custom_rules rules v
         | Some f \<Rightarrow>
             (case f v of
                VTrue \<Rightarrow> custom_rules rules v
              | VFalse \<Rightarrow> Some (message rule)
              | VMessage s \<Rightarrow> Some s))
      else custom_rules rules v)"

text \<open>\<open>value === undefined || value === null || value === ''\<close>\<close>

definition value_missing :: "jsval \<Rightarrow> bool" where
  "value_missing v \<longleftrightarrow> v = JUndefined \<or> v = JNull \<or> v = JStr []"

definition validateField ::
  "runtime \<Rightarrow> question \<Rightarrow> jsval \<Rightarrow> bool \<Rightarrow> js_error + string option" where
  "validateField rt q v isVisible =
     (if \<not> isVisible then Inr None
      else if required q \<and> value_missing v then Inr (Some (label q @ '' is required''))
      else if \<not> required q \<and> value_missing v then Inr None
      else
        (case (case type q of
                 QText \<Rightarrow> text_case rt q v
               | QNumber \<Rightarrow> number_case rt q v
               | QDate \<Rightarrow> date_case rt q v
               | QFile \<Rightarrow> file_case rt q v
               | QSelect \<Rightarrow> choice_case q v
               | QCheckbox \<Rightarrow> choice_case q v) of
           Inl e \<Rightarrow> Inl e
         | Inr (Return r) \<Rightarrow> Inr r
         | Inr Break \<Rightarrow>
             (case validation q of
                None \<Rightarrow> Inr None
              | Some rules \<Rightarrow> Inr (custom_rules rules v))))"

text \<open>One turn of the \<open>forEach\<close> of \<open>validateForm\<close>; \<open>if (error)\<close> is false for
  \<open>null\<close> and for the empty string. An exception ends the loop.\<close>

definition validate_step ::
  "runtime \<Rightarrow> formValues \<Rightarrow> js_error + (string \<rightharpoonup> string) \<Rightarrow> question
     \<Rightarrow> js_error + (string \<rightharpoonup> string)" where
  "validate_step rt vs acc q =
     (case acc of
        Inl e \<Rightarrow> Inl e
      | Inr errors \<Rightarrow>
          (let isVisible = isFieldVisible rt q vs in
           case validateField rt q (lookup vs (qid q)) isVisible of
             Inl e \<Rightarrow> Inl e
           | Inr None \<Rightarrow> Inr errors
           | Inr (Some error) \<Rightarrow>
               if error = [] then Inr errors else Inr (errors(qid q \<mapsto> error))))"

definition validateForm ::
  "runtime \<Rightarrow> question list \<Rightarrow> formValues \<Rightarrow> js_error + (string \<rightharpoonup> string)" where
  "validateForm rt qs vs = foldl (validate_step rt vs) (Inr Map.empty) qs"

section \<open>Persistence store (utils/storage.ts)\<close>

text \<open>
  \<open>localStorage\<close> holds strings. A stored string is modelled by what it denotes:
  \<open>Json v\<close> is the text \<open>JSON.stringify(v)\<close>, and \<open>Raw s\<close> is any other string
  \<open>s\<close>, which \<open>JSON.parse\<close> rejects. \<open>json_value v\<close> is the value that
  \<open>JSON.parse\<close> reads back from the text of \<open>v\<close>: \<open>NaN\<close> has become \<open>null\<close>,
  an array element that is undefined or a function \<open>null\<close>, a property whose value
  is undefined or a function is gone, and a \<open>File\<close>, which has no enumerable property
  of its own, is the empty object, as is \<open>Object.prototype\<close>.
\<close>

datatype item = Json jsval | Raw string

text \<open>The values for which \<open>JSON.stringify\<close> gives \<open>undefined\<close>.\<close>

fun json_omitted :: "jsval \<Rightarrow> bool" where
  "json_omitted JUndefined = True"
| "json_omitted (JFunction n a) = True"
| "json_omitted v = False"

fun json_value :: "jsval \<Rightarrow> jsval"
  and json_elements :: "jsval list \<Rightarrow> jsval list"
  and json_properties :: "(string \<times> jsval) list \<Rightarrow> (string \<times> jsval) list" where
  "json_value JUndefined = JUndefined"
| "json_value JNull = JNull"
| "json_value (JBool b) = JBool b"
| "json_value (JNum n) = JNum n"
| "json_value JNaN = JNull"
| "json_value (JStr s) = JStr s"
| "json_value (JArr xs) = JArr (json_elements xs)"
| "json_value (JObj kvs) = JObj (json_properties kvs)"
| "json_value (JFile n t sz) = JObj []"
| "json_value (JFunction n a) = JUndefined"
| "json_value JObjectPrototype = JObj []"
| "json_elements [] = []"
| "json_elements (x # xs) =
     (if json_omitted x then JNull else json_value x) # json_elements xs"
| "json_properties [] = []"
| "json_properties (kv # kvs) =
     (if json_omitted (snd kv) then json_properties kvs
      else (fst kv, json_value (snd kv)) # json_properties kvs)"

text \<open>\<open>JSON.stringify\<close> of undefined or of a function is \<open>undefined\<close>, which
  \<open>setItem\<close> stores as the string "undefined". The values of the model are finite trees without \<open>BigInt\<close>, so
  \<open>JSON.stringify\<close> does not throw.\<close>

definition JSON_stringify :: "jsval \<Rightarrow> item" where
  "JSON_stringify v = (if json_omitted v then Raw ''undefined'' else Json v)"

fun JSON_parse :: "item \<Rightarrow> js_error + jsval" where
  "JSON_parse (Json v) = (if json_omitted v then Inl SyntaxError else Inr (json_value v))"
| "JSON_parse (Raw s) = Inl SyntaxError"

text \<open>A stored string is truthy unless it is empty; a JSON text is never empty.\<close>

fun item_truthy :: "item \<Rightarrow> bool" where
  "item_truthy (Json v) = True"
| "item_truthy (Raw s) = (s \<noteq> [])"

text \<open>
  The store: its entries, and the host's decision whether a write is accepted
  (\<open>setItem\<close> throws \<open>QuotaExceededError\<close> when the quota is exceeded).
\<close>

record localStorage =
  items :: "string \<rightharpoonup> item"
  accepts :: "(string \<rightharpoonup> item) \<Rightarrow> string \<Rightarrow> item \<Rightarrow> bool"

definition setItem :: "localStorage \<Rightarrow> string \<Rightarrow> item \<Rightarrow> js_error + localStorage" where
  "setItem ls k v =
     (if accepts ls (items ls) k v then Inr (ls\<lparr>items := (items ls)(k \<mapsto> v)\<rparr>)
      else Inl QuotaExceededError)"

definition getItem :: "localStorage \<Rightarrow> string \<Rightarrow> item option" where
  "getItem ls k = items ls k"

definition removeItem :: "localStorage \<Rightarrow> string \<Rightarrow> localStorage" where
  "removeItem ls k = ls\<lparr>items := (items ls)(k := None)\<rparr>"

definition STORAGE_PREFIX :: string where
  "STORAGE_PREFIX = ''risk-form:''"

definition getStorageKey :: "string \<Rightarrow> string" where
  "getStorageKey formId = STORAGE_PREFIX @ formId"

definition getDraftsListKey :: "string \<Rightarrow> string" where
  "getDraftsListKey formId = STORAGE_PREFIX @ ''drafts:'' @ formId"

definition getDraftKey :: "string \<Rightarrow> string \<Rightarrow> string" where
  "getDraftKey formId draftId = STORAGE_PREFIX @ ''draft:'' @ formId @ '':'' @ draftId"

text \<open>\<open>v.k\<close> on a value that is neither null nor undefined, for a name \<open>k\<close> that
  the prototypes of strings, numbers, booleans, arrays and functions do not define
  (such as \<open>id\<close>): an object has its own properties and those it inherits, any other
  value has none of that name.\<close>

fun get_prop :: "jsval \<Rightarrow> string \<Rightarrow> jsval" where
  "get_prop (JObj kvs) k = lookup kvs k"
| "get_prop v k = JUndefined"

text \<open>\<open>draftId || dflt\<close> on an optional string (\<open>!!draftId\<close> is \<open>string_truthy\<close>).\<close>

definition string_or :: "string option \<Rightarrow> string \<Rightarrow> string" where
  "string_or d dflt = (case d of None \<Rightarrow> dflt | Some s \<Rightarrow> if s = [] then dflt else s)"

definition persistedFormState :: "string \<Rightarrow> formValues \<Rightarrow> jsval \<Rightarrow> string \<Rightarrow> jsval" where
  "persistedFormState formId values autoSave timestamp =
     JObj [(''formId'', JStr formId), (''values'', JObj values),
           (''autoSave'', autoSave), (''timestamp'', JStr timestamp)]"

definition autoSaveState :: "string \<Rightarrow> bool \<Rightarrow> string \<Rightarrow> jsval" where
  "autoSaveState lastSavedAt isDraft draftId =
     JObj [(''lastSavedAt'', JStr lastSavedAt), (''isDraft'', JBool isDraft),
           (''draftId'', JStr draftId)]"

text \<open>
  \<open>saveFormState\<close>. The two readings of the clock (\<open>new Date().toISOString()\<close>) are
  the arguments \<open>t1\<close> and \<open>t2\<close>. The result is the returned state or the thrown error,
  with the store after the call.
\<close>

definition saveFormState ::
  "string \<Rightarrow> string \<Rightarrow> string \<Rightarrow> formValues \<Rightarrow> string option \<Rightarrow> localStorage
     \<Rightarrow> (js_error + jsval) \<times> localStorage" where
  "saveFormState t1 t2 formId values draftId ls =
     (let autoSave = autoSaveState t1 (string_truthy draftId) (string_or draftId []);
          state = persistedFormState formId values autoSave t2
      in case setItem ls (getStorageKey formId) (JSON_stringify state) of
           Inr ls' \<Rightarrow> (Inr state, ls')
         | Inl e \<Rightarrow> (Inl (Error ''Failed to save form state''), ls))"

text \<open>\<open>stored ? JSON.parse(stored) : dflt\<close> inside \<open>try\<close>, the \<open>catch\<close> returning \<open>dflt\<close>.\<close>

definition parse_or :: "jsval \<Rightarrow> item option \<Rightarrow> jsval" where
  "parse_or dflt stored =
     (case stored of
        None \<Rightarrow> dflt
      | Some text \<Rightarrow>
          if item_truthy text
          then (case JSON_parse text of Inr v \<Rightarrow> v | Inl e \<Rightarrow> dflt)
          else dflt)"

definition loadFormState :: "string \<Rightarrow> localStorage \<Rightarrow> jsval" where
  "loadFormState formId ls = parse_or JNull (getItem ls (getStorageKey formId))"

definition getDraftsList :: "string \<Rightarrow> localStorage \<Rightarrow> jsval" where
  "getDraftsList formId ls = parse_or (JArr []) (getItem ls (getDraftsListKey formId))"

text \<open>The decimal digits of \<open>Date.now()\<close>, for \<open>`draft-${Date.now()}`\<close>.\<close>

definition digit_char :: "nat \<Rightarrow> char" where
  "digit_char d = ''0123456789'' ! d"

function decimal :: "nat \<Rightarrow> string" where
  "decimal n = (if n < 10 then [digit_char n] else decimal (n div 10) @ [digit_char (n mod 10)])"
  by pat_completeness auto
termination
  by (relation "measure id") auto

declare decimal.simps [simp del]

definition draftEntry :: "string \<Rightarrow> string \<Rightarrow> string \<Rightarrow> string \<Rightarrow> jsval" where
  "draftEntry draftId draftName createdAt updatedAt =
     JObj [(''id'', JStr draftId), (''name'', JStr draftName),
           (''createdAt'', JStr createdAt), (''updatedAt'', JStr updatedAt)]"

text \<open>\<open>draftsList.push(entry)\<close>: a \<open>TypeError\<close> when what was parsed is not an array.\<close>

fun array_push :: "jsval \<Rightarrow> jsval \<Rightarrow> js_error + jsval" where
  "array_push (JArr xs) x = Inr (JArr (xs @ [x]))"
| "array_push v x = Inl TypeError"

text \<open>
  \<open>saveDraft\<close>. \<open>now\<close> is \<open>Date.now()\<close>; \<open>t1\<close> to \<open>t4\<close> are the four readings
  of \<open>new Date().toISOString()\<close>. The first write stays in the store when a later step
  throws.
\<close>

definition saveDraft ::
  "nat \<Rightarrow> string \<Rightarrow> string \<Rightarrow> string \<Rightarrow> string \<Rightarrow>
   string \<Rightarrow> string \<Rightarrow> formValues \<Rightarrow> string option \<Rightarrow> localStorage
     \<Rightarrow> (js_error + string) \<times> localStorage" where
  "saveDraft now t1 t2 t3 t4 formId draftName values draftId ls =
     (let newDraftId = string_or draftId (''draft-'' @ decimal now);
          draftKey = getDraftKey formId newDraftId;
          autoSave = autoSaveState t1 True newDraftId;
          state = persistedFormState formId values autoSave t2
      in case setItem ls draftKey (JSON_stringify state) of
           Inl e \<Rightarrow> (Inl (Error ''Failed to save draft''), ls)
         | Inr ls1 \<Rightarrow>
             (let listKey = getDraftsListKey formId;
                  draftsList = getDraftsList formId ls1
              in (case array_push draftsList (draftEntry newDraftId draftName t3 t4) of
                    Inl e \<Rightarrow> (Inl (Error ''Failed to save draft''), ls1)
                  | Inr draftsList' \<Rightarrow>
                      (case setItem ls1 listKey (JSON_stringify draftsList') of
                         Inl e \<Rightarrow> (Inl (Error ''Failed to save draft''), ls1)
                       | Inr ls2 \<Rightarrow> (Inr newDraftId, ls2)))))"

text \<open>\<open>d.id !== draftId\<close>, the callback of the filter: reading \<open>id\<close> from \<open>null\<close>
  is a \<open>TypeError\<close>; a value that is not an object has no \<open>id\<close>.\<close>

fun id_differs :: "string \<Rightarrow> jsval \<Rightarrow> js_error + bool" where
  "id_differs draftId JNull = Inl TypeError"
| "id_differs draftId JUndefined = Inl TypeError"
| "id_differs draftId d = Inr (\<not> strict_equal (get_prop d ''id'') (JStr draftId))"

fun filter_drafts :: "string \<Rightarrow> jsval list \<Rightarrow> js_error + jsval list" where
  "filter_drafts draftId [] = Inr []"
| "filter_drafts draftId (d # ds) =
     (case id_differs draftId d of
        Inl e \<Rightarrow> Inl e
      | Inr keep \<Rightarrow>
          (case filter_drafts draftId ds of
             Inl e \<Rightarrow> Inl e
           | Inr ds' \<Rightarrow> Inr (if keep then d # ds' else ds')))"

fun array_filter_drafts :: "string \<Rightarrow> jsval \<Rightarrow> js_error + jsval" where
  "array_filter_drafts draftId (JArr ds) =
     (case filter_drafts draftId ds of Inl e \<Rightarrow> Inl e | Inr ds' \<Rightarrow> Inr (JArr ds'))"
| "array_filter_drafts draftId v = Inl TypeError"

text \<open>\<open>deleteDraft\<close>: every error is caught and logged; the removal of the draft's
  data has happened by then.\<close>

definition deleteDraft :: "string \<Rightarrow> string \<Rightarrow> localStorage \<Rightarrow> localStorage" where
  "deleteDraft formId draftId ls =
     (let ls1 = removeItem ls (getDraftKey formId draftId);
          listKey = getDraftsListKey formId;
          draftsList = getDraftsList formId ls1
      in case array_filter_drafts draftId draftsList of
           Inl e \<Rightarrow> ls1
         | Inr filteredList \<Rightarrow>
             (case setItem ls1 listKey (JSON_stringify filteredList) of
                Inl e \<Rightarrow> ls1
              | Inr ls2 \<Rightarrow> ls2))"

section \<open>Notions of the specification and fixtures\<close>

text \<open>"\<open>riskWeight\<close> defaults to 0 if absent."\<close>

definition riskWeight_or_zero :: "question \<Rightarrow> rat" where
  "riskWeight_or_zero q = (case riskWeight q of None \<Rightarrow> 0 | Some w \<Rightarrow> w)"

text \<open>"Select/checkbox questions whose options carry \<open>riskValue\<close>."\<close>

fun has_riskValue :: "select_option \<Rightarrow> bool" where
  "has_riskValue (OptObject l v (Some r)) = True"
| "has_riskValue opt = False"

definition carries_riskValue :: "question \<Rightarrow> bool" where
  "carries_riskValue q \<longleftrightarrow>
     (type q = QSelect \<or> type q = QCheckbox) \<and>
     (case options q of None \<Rightarrow> False | Some opts \<Rightarrow> list_ex has_riskValue opts)"

text \<open>The \<open>riskValue\<close> of the option that a selected value matches, if there is one.\<close>

definition matched_riskValue :: "question \<Rightarrow> jsval \<Rightarrow> rat option" where
  "matched_riskValue q val =
     (case options q of
        None \<Rightarrow> None
      | Some opts \<Rightarrow> riskValue_of (find (option_matches val) opts))"

text \<open>"Each selected option's \<open>riskValue\<close>, falling back to \<open>riskWeight\<close> per option
  without one": the contribution of one selected value, in the specification's words.\<close>

definition spec_selected_risk :: "question \<Rightarrow> jsval \<Rightarrow> rat" where
  "spec_selected_risk q val =
     (case matched_riskValue q val of
        Some r \<Rightarrow> r
      | None \<Rightarrow> riskWeight_or_zero q)"

text \<open>The arithmetic mean as double arithmetic computes it: the values are added from
  left to right, starting from 0, and the sum is divided by their number, every
  operation rounding its result to the nearest double.\<close>

definition double_mean :: "rat list \<Rightarrow> number" where
  "double_mean xs =
     js_div (foldl (\<lambda>a b. js_add a (Fin b)) (Fin 0) xs) (Fin (of_nat (length xs)))"

text \<open>A question with nothing optional set; the fixtures below update it.\<close>

definition plain_question :: question where
  "plain_question =
     \<lparr> qid = ''q'', type = QText, label = ''Question'', required = False,
       riskWeight = None, conditional = None, validation = None, options = None,
       minLength = None, maxLength = None, pattern = None, minValue = None, maxValue = None,
       minDate = None, maxDate = None, accept = None, maxSize = None \<rparr>"

text \<open>The configuration of riskCalculation.test.ts (\<open>mockConfig\<close>) and its two questions.\<close>

definition mock_q1 :: question where
  "mock_q1 = plain_question
     \<lparr> qid := ''q1'', type := QSelect, label := ''Question 1'', riskWeight := Some 10,
       options := Some [OptObject ''Yes'' ''yes'' (Some 0), OptObject ''No'' ''no'' (Some 10)] \<rparr>"

definition mock_q2 :: question where
  "mock_q2 = plain_question
     \<lparr> qid := ''q2'', type := QNumber, label := ''Question 2'', riskWeight := Some 5 \<rparr>"

definition config_of :: "question list \<Rightarrow> formConfig" where
  "config_of qs =
     \<lparr> fid = ''test-form'', ftitle = ''Test Form'',
       sections = [\<lparr> sid = ''section1'', title = ''Section 1'', questions = qs \<rparr>],
       maxRiskScore = Some 100 \<rparr>"

text \<open>Two select questions on which double arithmetic and exact arithmetic part: the
  option \<open>a\<close> carries 23 of 40, respectively 1 of 3.\<close>

definition q_23_of_40 :: question where
  "q_23_of_40 = plain_question
     \<lparr> qid := ''r1'', type := QSelect, riskWeight := Some 40,
       options := Some [OptObject ''A'' ''a'' (Some 23)] \<rparr>"

definition q_1_of_3 :: question where
  "q_1_of_3 = plain_question
     \<lparr> qid := ''r2'', type := QSelect, riskWeight := Some 3,
       options := Some [OptObject ''A'' ''a'' (Some 1)] \<rparr>"

definition mockConfig :: formConfig where
  "mockConfig = config_of [mock_q1, mock_q2]"

text \<open>The concrete scenario of the specification: one section, the select question alone.\<close>

definition scenario_config :: formConfig where
  "scenario_config = config_of [mock_q1]"

text \<open>A checkbox question of weight 0.1 whose three options are bare strings, and one
  whose three options carry the risks 0.1, 0.2 and 0.3.\<close>

definition three_boxes_question :: question where
  "three_boxes_question = plain_question
     \<lparr> qid := ''c2'', type := QCheckbox, label := ''Three boxes'',
       riskWeight := Some (double_literal (1 / 10)),
       options := Some [OptString ''x'', OptString ''y'', OptString ''z''] \<rparr>"

definition graded_boxes_question :: question where
  "graded_boxes_question = plain_question
     \<lparr> qid := ''c3'', type := QCheckbox, label := ''Graded boxes'', riskWeight := Some 1,
       options := Some [OptObject ''X'' ''x'' (Some (double_literal (1 / 10))),
                        OptObject ''Y'' ''y'' (Some (double_literal (2 / 10))),
                        OptObject ''Z'' ''z'' (Some (double_literal (3 / 10)))] \<rparr>"

text \<open>A checkbox question: option \<open>a\<close> carries risk 4, option \<open>b\<close> carries none.\<close>

definition checkbox_question :: question where
  "checkbox_question = plain_question
     \<lparr> qid := ''c1'', type := QCheckbox, label := ''Boxes'', riskWeight := Some 10,
       options := Some [OptObject ''A'' ''a'' (Some 4), OptObject ''B'' ''b'' None] \<rparr>"

text \<open>A select question whose option carries more risk than the question weighs.\<close>

definition heavy_question :: question where
  "heavy_question = plain_question
     \<lparr> qid := ''h1'', type := QSelect, label := ''Heavy'', riskWeight := Some 10,
       options := Some [OptObject ''High'' ''high'' (Some 20)] \<rparr>"

text \<open>The questions of a configuration, section after section, and the two running sums
  of the specification, started from \<open>a\<close>: the scores of the questions and their
  weights, each added in its turn.\<close>

definition all_questions :: "formConfig \<Rightarrow> question list" where
  "all_questions cfg = concat (map questions (sections cfg))"

definition add_scores :: "formValues \<Rightarrow> number \<Rightarrow> question list \<Rightarrow> number" where
  "add_scores vs a qs =
     foldl (\<lambda>acc q. js_add acc (calculateQuestionRiskScore q (lookup vs (qid q)))) a qs"

definition add_weights :: "number \<Rightarrow> question list \<Rightarrow> number" where
  "add_weights a qs = foldl (\<lambda>acc q. js_add acc (Fin (riskWeight_or_zero q))) a qs"

text \<open>
  A runtime for the examples: it prints whole numbers in decimal, reads no number, matches
  no pattern and parses no date. None of the examples below reaches these operations, and
  the general statements hold for every runtime.
\<close>

definition example_runtime :: runtime where
  "example_runtime =
     \<lparr> numberToString = (\<lambda>n. if n < 0 then ''-'' @ decimal (nat \<lfloor>- n\<rfloor>) else decimal (nat \<lfloor>n\<rfloor>)),
       functionToString = (\<lambda>n. ''function '' @ n @ ''() { [native code] }''),
       stringToNumber = (\<lambda>s. None),
       toLowerCase = (\<lambda>s. s),
       trim = (\<lambda>s. s),
       regexTest = (\<lambda>p s. Some False),
       dateTime = (\<lambda>v. None) \<rparr>"

text \<open>A question shown when the answer to \<open>q1\<close> is less than 5, one shown when it
  is greater than -1, one shown when it is \<open>false\<close>, one shown when it is 0, and
  one whose operator is not in the table.\<close>

definition when_false_question :: question where
  "when_false_question = plain_question
     \<lparr> qid := ''q6'',
       conditional := Some \<lparr> questionId = ''q1'', answer = ABool False, operator = None \<rparr> \<rparr>"

definition when_zero_question :: question where
  "when_zero_question = plain_question
     \<lparr> qid := ''q7'',
       conditional := Some \<lparr> questionId = ''q1'', answer = ANum 0, operator = Some ''equals'' \<rparr> \<rparr>"

definition unknown_operator_question :: question where
  "unknown_operator_question = plain_question
     \<lparr> qid := ''q8'',
       conditional := Some \<lparr> questionId = ''q1'', answer = ANum 0, operator = Some ''notEquals'' \<rparr> \<rparr>"

definition below_five_question :: question where
  "below_five_question = plain_question
     \<lparr> qid := ''q2'',
       conditional := Some \<lparr> questionId = ''q1'', answer = ANum 5, operator = Some ''lessThan'' \<rparr> \<rparr>"

definition above_minus_one_question :: question where
  "above_minus_one_question = plain_question
     \<lparr> qid := ''q3'',
       conditional := Some \<lparr> questionId = ''q1'', answer = ANum (- 1), operator = Some ''greaterThan'' \<rparr> \<rparr>"

text \<open>A question shown when the checkbox answer to \<open>q1\<close> includes one of the listed
  values.\<close>

definition includes_question :: question where
  "includes_question = plain_question
     \<lparr> qid := ''q4'',
       conditional := Some \<lparr> questionId = ''q1'', answer = AStrs [''a''], operator = Some ''includes'' \<rparr> \<rparr>"

text \<open>The two required text questions of validation.test.ts, a required question behind
  a condition, and a second question with the id \<open>q1\<close>.\<close>

definition name_question :: question where
  "name_question = plain_question \<lparr> qid := ''q1'', label := ''Name'', required := True \<rparr>"

definition email_question :: question where
  "email_question = plain_question \<lparr> qid := ''q2'', label := ''Email'', required := True \<rparr>"

definition conditional_required_question :: question where
  "conditional_required_question = plain_question
     \<lparr> qid := ''q5'', label := ''Details'', required := True,
       conditional := Some \<lparr> questionId = ''q1'', answer = AStr ''yes'', operator = None \<rparr> \<rparr>"

text \<open>A required question whose id is the name of a property that every object
  inherits.\<close>

definition constructor_question :: question where
  "constructor_question = plain_question
     \<lparr> qid := ''constructor'', label := ''Constructor'', required := True \<rparr>"

definition name_again_question :: question where
  "name_again_question = plain_question \<lparr> qid := ''q1'', label := ''Name again'', required := True \<rparr>"

text \<open>"JSON-representable" answers: null, booleans, finite numbers, strings, and arrays
  and objects of them (no undefined, no \<open>NaN\<close>, no \<open>File\<close>).\<close>

fun is_json :: "jsval \<Rightarrow> bool"
  and are_json :: "jsval list \<Rightarrow> bool"
  and are_json_properties :: "(string \<times> jsval) list \<Rightarrow> bool" where
  "is_json JUndefined = False"
| "is_json JNull = True"
| "is_json (JBool b) = True"
| "is_json (JNum n) = True"
| "is_json JNaN = False"
| "is_json (JStr s) = True"
| "is_json (JArr xs) = are_json xs"
| "is_json (JObj kvs) = are_json_properties kvs"
| "is_json (JFile n t sz) = False"
| "is_json (JFunction n a) = False"
| "is_json JObjectPrototype = False"
| "are_json [] = True"
| "are_json (x # xs) = (is_json x \<and> are_json xs)"
| "are_json_properties [] = True"
| "are_json_properties (kv # kvs) = (is_json (snd kv) \<and> are_json_properties kvs)"

text \<open>An empty store that accepts every write, and one that refuses every write.\<close>

definition empty_storage :: localStorage where
  "empty_storage = \<lparr> items = Map.empty, accepts = (\<lambda>m k v. True) \<rparr>"

definition full_storage :: localStorage where
  "full_storage = \<lparr> items = Map.empty, accepts = (\<lambda>m k v. False) \<rparr>"

text \<open>The store after saving the draft \<open>d1\<close> of form \<open>form1\<close>; after then saving a
  second draft, its id generated at \<open>Date.now() = 2\<close>; and after saving \<open>d1\<close> a
  second time instead.\<close>

definition one_draft_storage :: localStorage where
  "one_draft_storage =
     snd (saveDraft 1 ''t1'' ''t2'' ''t3'' ''t4'' ''form1'' ''Draft 1'' [(''q1'', JStr ''a'')]
            (Some ''d1'') empty_storage)"

definition two_drafts_storage :: localStorage where
  "two_drafts_storage =
     snd (saveDraft 2 ''u1'' ''u2'' ''u3'' ''u4'' ''form1'' ''Draft 2'' [(''q1'', JStr ''b'')]
            None one_draft_storage)"

definition resaved_storage :: localStorage where
  "resaved_storage =
     snd (saveDraft 3 ''v1'' ''v2'' ''v3'' ''v4'' ''form1'' ''Draft 1 again'' [(''q1'', JStr ''c'')]
            (Some ''d1'') one_draft_storage)"

definition entry_d1 :: jsval where
  "entry_d1 = draftEntry ''d1'' ''Draft 1'' ''t3'' ''t4''"

definition entry_d2 :: jsval where
  "entry_d2 = draftEntry ''draft-2'' ''Draft 2'' ''u3'' ''u4''"

definition entry_d1_again :: jsval where
  "entry_d1_again = draftEntry ''d1'' ''Draft 1 again'' ''v3'' ''v4''"

section \<open>Numbers: properties\<close>

text \<open>
  \<open>ilog2\<close> finds the binary exponent, and \<open>fl\<close> leaves every integer below
  \<open>2^53\<close> as it is: integers of that size are doubles, and arithmetic on them is exact
  as long as the result is one of them.
\<close>

lemma pow2_powi: "pow2 k = 2 powi k"
  by (simp add: pow2_def power_int_def inverse_eq_divide power_one_over)

lemma pow2_pos: "0 < pow2 k"
  by (simp add: pow2_powi)

lemma pow2_add: "pow2 (i + j) = pow2 i * pow2 j"
  by (simp add: pow2_powi power_int_add)

lemma pow2_diff: "pow2 (i - j) = pow2 i / pow2 j"
  using pow2_add [of "i - j" j] pow2_pos [of j] by (simp add: field_simps)

lemma pow2_mono: "i \<le> j \<Longrightarrow> pow2 i \<le> pow2 j"
  by (simp add: pow2_powi power_int_increasing)

lemma pow2_less_iff: "pow2 i < pow2 j \<longleftrightarrow> i < j"
proof
  assume "pow2 i < pow2 j"
  show "i < j"
  proof (rule ccontr)
    assume "\<not> i < j"
    then have "pow2 j \<le> pow2 i" by (simp add: pow2_mono)
    with \<open>pow2 i < pow2 j\<close> show False by simp
  qed
next
  assume "i < j"
  then show "pow2 i < pow2 j"
    by (simp add: pow2_powi power_int_strict_increasing)
qed

lemma bitlen_pow2_bounds:
  assumes "0 < a"
  shows "pow2 (bitlen a - 1) \<le> of_int a \<and> of_int a < pow2 (bitlen a)"
proof -
  from assms have l: "1 \<le> bitlen a"
    using bitlen_eq_zero_iff [of a] bitlen_nonneg [of a] by linarith
  from bitlen_bounds [OF assms]
  have "(of_int (2 ^ nat (bitlen a - 1)) :: rat) \<le> of_int a"
    and "(of_int a :: rat) < of_int (2 ^ nat (bitlen a))"
    by (simp_all only: of_int_le_iff of_int_less_iff)
  with l show ?thesis
    by (simp add: pow2_def)
qed

lemma ilog2_bounds:
  assumes "0 < x"
  shows "pow2 (ilog2 x) \<le> x \<and> x < pow2 (ilog2 x + 1)"
proof -
  obtain a b where q: "quotient_of x = (a, b)"
    by (cases "quotient_of x")
  then have b: "0 < b" and x: "x = of_int a / of_int b"
    by (simp_all add: quotient_of_denom_pos quotient_of_div)
  with assms have a: "0 < a"
    by (simp add: zero_less_divide_iff)
  define d where "d = bitlen a - bitlen b"
  note A = bitlen_pow2_bounds [OF a] and B = bitlen_pow2_bounds [OF b]
  have "x < pow2 (bitlen a) / pow2 (bitlen b - 1)"
    unfolding x using A B a b pow2_pos [of "bitlen b - 1"] by (intro frac_less) simp_all
  also have "\<dots> = pow2 (d + 1)"
    using pow2_diff [of "bitlen a" "bitlen b - 1"] by (simp add: d_def algebra_simps)
  finally have up: "x < pow2 (d + 1)" .
  have "pow2 (bitlen a - 1) / pow2 (bitlen b) < x"
    unfolding x using A B a b pow2_pos [of "bitlen a - 1"] by (intro frac_less2) simp_all
  moreover have "pow2 (bitlen a - 1) / pow2 (bitlen b) = pow2 (d - 1)"
    using pow2_diff [of "bitlen a - 1" "bitlen b"] by (simp add: d_def algebra_simps)
  ultimately have low: "pow2 (d - 1) < x"
    by simp
  have "ilog2 x = (if pow2 d \<le> x then d else d - 1)"
    by (simp add: ilog2_def q d_def Let_def)
  with up low show ?thesis
    by (auto simp: not_le)
qed

lemma round_half_even_of_int: "round_half_even (of_int m) = m"
  by (simp add: round_half_even_def)

lemma fl_of_int:
  assumes "\<bar>n\<bar> < 9007199254740992"
  shows "fl (of_int n) = Fin (of_int n)"
proof (cases "n = 0")
  case True
  then show ?thesis by (simp add: fl_def)
next
  case False
  define e where "e = ilog2 \<bar>of_int n\<bar>"
  have pos: "0 < \<bar>(of_int n :: rat)\<bar>"
    using False by simp
  from ilog2_bounds [OF pos]
  have lo: "pow2 e \<le> \<bar>of_int n\<bar>" and hi: "\<bar>(of_int n :: rat)\<bar> < pow2 (e + 1)"
    by (simp_all add: e_def)
  have "1 \<le> \<bar>n\<bar>"
    using False by simp
  then have "(of_int 1 :: rat) \<le> of_int \<bar>n\<bar>"
    by (simp only: of_int_le_iff)
  with hi have "pow2 0 < pow2 (e + 1)"
    by (simp add: pow2_def)
  then have e0: "0 \<le> e"
    by (simp add: pow2_less_iff)
  from assms have "(of_int \<bar>n\<bar> :: rat) < of_int 9007199254740992"
    by (simp only: of_int_less_iff)
  with lo have "pow2 e < pow2 53"
    by (simp add: pow2_def)
  then have e52: "e \<le> 52"
    by (simp add: pow2_less_iff)
  define k where "k = nat (52 - e)"
  have inv: "pow2 (e - 52) * 2 ^ k = 1"
    using pow2_add [of "e - 52" "52 - e"] e52 by (simp add: pow2_def k_def)
  then have "of_int n / pow2 (e - 52) = of_int n * 2 ^ k"
    using pow2_pos [of "e - 52"] by (simp add: field_simps)
  also have "\<dots> = of_int (n * 2 ^ k)"
    by simp
  finally have "round_half_even (of_int n / pow2 (e - 52)) = n * 2 ^ k"
    by (simp only: round_half_even_of_int)
  moreover have "of_int (n * 2 ^ k) * pow2 (e - 52) = (of_int n :: rat)"
    using inv by (simp add: mult.assoc mult.commute)
  ultimately show ?thesis
    using False e0 e52 by (simp add: fl_def Let_def e_def [symmetric] max_def)
qed

text \<open>The same function, with the integers below \<open>2^53\<close> recognised first.\<close>

lemma fl_code [code]:
  "fl x =
     (case quotient_of x of (a, b) \<Rightarrow>
        if b = 1 \<and> \<bar>a\<bar> < 9007199254740992 then Fin x
        else
          let e = max (ilog2 \<bar>x\<bar>) (- 1022);
              n = round_half_even (x / pow2 (e - 52))
          in if e > 1023 \<or> e = 1023 \<and> \<bar>n\<bar> \<ge> 9007199254740992
             then (if x > 0 then PosInf else NegInf)
             else Fin (of_int n * pow2 (e - 52)))"
proof -
  obtain a b where q: "quotient_of x = (a, b)"
    by (cases "quotient_of x")
  show ?thesis
  proof (cases "b = 1 \<and> \<bar>a\<bar> < 9007199254740992")
    case True
    with q have "x = of_int a"
      using quotient_of_div [OF q] by simp
    with True q show ?thesis
      using fl_of_int [of a] by simp
  next
    case False
    have "x \<noteq> 0"
    proof
      assume "x = 0"
      with q have "a = 0" "b = 1" by (simp_all add: rat_zero_code)
      with False show False by simp
    qed
    show ?thesis
      unfolding q prod.case if_not_P [OF False]
      by (simp only: fl_def if_not_P [OF \<open>x \<noteq> 0\<close>])
  qed
qed

text \<open>
  The literal \<open>0.1\<close> is the double \<open>3602879701896397 / 2^55\<close>, and
  \<open>0.1 + 0.2\<close> is \<open>0.30000000000000004\<close>, the double above the literal \<open>0.3\<close>.
\<close>

lemma double_examples:
  "fl (1 / 10) = Fin (3602879701896397 / 36028797018963968) \<and>
   js_add (Fin (double_literal (1 / 10))) (Fin (double_literal (2 / 10)))
     = Fin (1351079888211149 / 4503599627370496) \<and>
   fl (3 / 10) = Fin (5404319552844595 / 18014398509481984) \<and>
   js_div (Fin 1) (Fin 0) = PosInf \<and> js_div (Fin 0) (Fin 0) = NotANumber"
  by code_simp

section \<open>Risk scoring: properties\<close>

lemma or_number_zero: "or_number (riskWeight q) 0 = riskWeight_or_zero q"
  by (simp add: or_number_def riskWeight_or_zero_def split: option.splits)

lemma answer_is_empty_iff:
  "answer_is_empty a \<longleftrightarrow>
     a \<in> {JUndefined, JNull, JBool False, JNum 0, JNaN, JStr [], JArr []}"
  by (cases a) (auto simp: answer_is_empty_def)

lemma find_no_riskValue:
  "\<not> list_ex has_riskValue opts \<Longrightarrow> riskValue_of (find P opts) = None"
proof (induction opts)
  case Nil
  then show ?case by simp
next
  case (Cons opt opts)
  then show ?case
  proof (cases opt)
    case (OptString s)
    with Cons show ?thesis by simp
  next
    case (OptObject l v r)
    with Cons show ?thesis by (cases r) simp_all
  qed
qed

lemma option_score_no_riskValue:
  "\<not> list_ex has_riskValue opts \<Longrightarrow> option_score opts w val = w"
  by (simp add: option_score_def find_no_riskValue or_number_def)

text \<open>Adding a double to 0 and dividing a double by 1 round nothing.\<close>

lemma double_mean_single: "is_double w \<Longrightarrow> double_mean [w] = Fin w"
  by (simp add: double_mean_def is_double_def)

text \<open>
  The loops of \<open>calculateRiskScore\<close> add, question after question, the score that
  \<open>calculateQuestionRiskScore\<close> gives to the question's answer and the question's
  weight; the reported total is the rounded, rescaled percentage of the two sums.
\<close>

lemma question_fold:
  "foldl (question_step vs) (a, b, c, d) qs =
     (add_scores vs a qs, add_weights b qs, add_scores vs c qs, add_weights d qs)"
  by (induction qs arbitrary: a b c d)
    (simp_all add: question_step_def add_scores_def add_weights_def or_number_zero Let_def)

lemma section_fold:
  "snd (foldl (section_step vs) (bd, t, m) secs) =
     (add_scores vs t (concat (map questions secs)), add_weights m (concat (map questions secs)))"
proof (induction secs arbitrary: bd t m)
  case Nil
  then show ?case by (simp add: add_scores_def add_weights_def)
next
  case (Cons s secs)
  have "\<exists>bd'. section_step vs (bd, t, m) s =
          (bd', add_scores vs t (questions s), add_weights m (questions s))"
    by (simp add: section_step_def question_fold)
  then obtain bd' where
    "section_step vs (bd, t, m) s = (bd', add_scores vs t (questions s), add_weights m (questions s))"
    by blast
  then show ?case
    using Cons [of bd' "add_scores vs t (questions s)" "add_weights m (questions s)"]
    by (simp add: add_scores_def add_weights_def)
qed

lemma calculateRiskScore_total:
  "totalScore (calculateRiskScore cfg vs) =
     math_round
       (js_mul
          (js_div
             (percent (add_scores vs (Fin 0) (all_questions cfg))
                (add_weights (Fin 0) (all_questions cfg)))
             (Fin 100))
          (Fin (or_number (maxRiskScore cfg) 100)))"
proof -
  obtain bd t m where
    f: "foldl (section_step vs) (Map.empty, Fin 0, Fin 0) (sections cfg) = (bd, t, m)"
    by (metis prod_cases3)
  with section_fold [of vs Map.empty "Fin 0" "Fin 0" "sections cfg"]
  have "t = add_scores vs (Fin 0) (all_questions cfg)"
    and "m = add_weights (Fin 0) (all_questions cfg)"
    by (simp_all add: all_questions_def)
  with f show ?thesis
    by (simp add: calculateRiskScore_def Let_def)
qed

text \<open>
  The arithmetic is that of doubles. With 23 points of 40 the exact percentage is 57.5,
  the double \<open>23 / 40 * 100\<close> is just below it, and the total is 57; with 1 point of 3
  and \<open>maxRiskScore\<close> 150 the exact score is 50, the double is just below it, and the
  level is Medium.
\<close>

lemma double_rounding_examples:
  "totalScore (calculateRiskScore (config_of [q_23_of_40]) [(''r1'', JStr ''a'')]) = Fin 57 \<and>
   level (calculateRiskScore ((config_of [q_1_of_3]) \<lparr> maxRiskScore := Some 150 \<rparr>)
            [(''r2'', JStr ''a'')]) = Medium"
  by code_simp

text \<open>
  What the single-select branch computes: the matched option's \<open>riskValue\<close> when it is
  present and not 0, the question's weight in every other case.
\<close>

lemma single_select_score:
  assumes "type q = QSelect" and "options q = Some opts" and "s \<noteq> []"
  shows "calculateQuestionRiskScore q (JStr s) =
           Fin (case matched_riskValue q (JStr s) of
                  None \<Rightarrow> riskWeight_or_zero q
                | Some r \<Rightarrow> if r = 0 then riskWeight_or_zero q else r)"
proof -
  have "calculateQuestionRiskScore q (JStr s) =
          Fin (or_number (matched_riskValue q (JStr s)) (riskWeight_or_zero q))"
    using assms
    by (simp add: calculateQuestionRiskScore_def answer_is_empty_def option_score_def
        or_number_zero matched_riskValue_def)
  then show ?thesis
    by (simp add: or_number_def)
qed

text \<open>
  C1. In the concrete scenario (one select question, options yes/0 and no/10, weight 10,
  \<open>maxRiskScore\<close> 100) the answer \<open>yes\<close> gives \<open>totalScore\<close> 100 and level Critical:
  the \<open>riskValue\<close> 0 of the matched option is falsy, and \<open>riskValue || weight\<close> takes
  the weight. The answer \<open>no\<close> gives 100 and Critical, no answer gives 0 and Low.
\<close>

theorem scenario_yes_takes_weight:
  "totalScore (calculateRiskScore scenario_config [(''q1'', JStr ''yes'')]) = Fin 100 \<and>
   level (calculateRiskScore scenario_config [(''q1'', JStr ''yes'')]) = Critical \<and>
   calculateQuestionRiskScore mock_q1 (JStr ''yes'') = Fin 10 \<and>
   totalScore (calculateRiskScore scenario_config [(''q1'', JStr ''no'')]) = Fin 100 \<and>
   level (calculateRiskScore scenario_config [(''q1'', JStr ''no'')]) = Critical \<and>
   totalScore (calculateRiskScore scenario_config []) = Fin 0 \<and>
   level (calculateRiskScore scenario_config []) = Low"
  by code_simp

text \<open>
  The repository's own test "should calculate correct risk level" expects level Low from
  \<open>mockConfig\<close> with \<open>q1\<close> answered \<open>yes\<close>; the function returns High (67 of 100).
\<close>

lemma mockConfig_yes_is_High:
  "level (calculateRiskScore mockConfig [(''q1'', JStr ''yes'')]) = High \<and>
   totalScore (calculateRiskScore mockConfig [(''q1'', JStr ''yes'')]) = Fin 67"
  by code_simp

text \<open>
  The first guard is \<open>!answer\<close>: an answer that is present but falsy (the number 0,
  \<open>false\<close>, \<open>NaN\<close>) is scored like no answer.
\<close>

lemma falsy_answer_scores_zero:
  "a \<in> {JNum 0, JBool False, JNaN} \<Longrightarrow> calculateQuestionRiskScore q a = Fin 0"
  by (auto simp: calculateQuestionRiskScore_def answer_is_empty_def)

text \<open>
  C2, as stated, fails: a checkbox question whose options carry no \<open>riskValue\<close>, of
  weight 0.1, answered with its three options, does not score its \<open>riskWeight\<close>. The
  score is the double \<open>(0 + 0.1 + 0.1 + 0.1) / 3\<close>, which is 0.10000000000000002.
\<close>

theorem replicated_weight_is_rounded:
  "\<not> carries_riskValue three_boxes_question \<and>
   truthy (JArr [JStr ''x'', JStr ''y'', JStr ''z'']) \<and>
   riskWeight_or_zero three_boxes_question = 3602879701896397 / 36028797018963968 \<and>
   calculateQuestionRiskScore three_boxes_question (JArr [JStr ''x'', JStr ''y'', JStr ''z''])
     = Fin (7205759403792795 / 72057594037927936) \<and>
   Fin (7205759403792795 / 72057594037927936) \<noteq> Fin (riskWeight_or_zero three_boxes_question) \<and>
   map_option score
     (breakdown (calculateRiskScore (config_of [three_boxes_question])
                   [(''c2'', JArr [JStr ''x'', JStr ''y'', JStr ''z''])]) ''section1'')
     = Some (Fin (7205759403792795 / 72057594037927936))"
  by code_simp

text \<open>
  C2, amended. An absent or empty answer (undefined, null, the empty string, the empty
  array) scores 0 whatever the question. A truthy answer to a question that is not a
  select/checkbox with \<open>riskValue\<close>-carrying options scores exactly the question's
  \<open>riskWeight\<close>, 0 when absent, with one exception: a checkbox question with an options
  array, answered with a non-empty array, scores the mean, in double arithmetic, of as
  many copies of \<open>riskWeight\<close> as values are selected. That mean is \<open>riskWeight\<close>
  itself when one value is selected.
\<close>

theorem unanswered_zero_answered_weight:
  "(a \<in> {JUndefined, JNull, JStr [], JArr []} \<longrightarrow> calculateQuestionRiskScore q a = Fin 0) \<and>
   (truthy a \<and> a \<noteq> JArr [] \<and> \<not> carries_riskValue q \<and>
    \<not> (type q = QCheckbox \<and> options q \<noteq> None \<and> isArray a)
      \<longrightarrow> calculateQuestionRiskScore q a = Fin (riskWeight_or_zero q)) \<and>
   (vals \<noteq> [] \<and> \<not> carries_riskValue q \<and> type q = QCheckbox \<and> options q \<noteq> None
      \<longrightarrow> calculateQuestionRiskScore q (JArr vals)
            = double_mean (replicate (length vals) (riskWeight_or_zero q))) \<and>
   (\<not> carries_riskValue q \<and> type q = QCheckbox \<and> options q \<noteq> None \<and>
    is_double (riskWeight_or_zero q)
      \<longrightarrow> calculateQuestionRiskScore q (JArr [v]) = Fin (riskWeight_or_zero q))"
proof -
  have mean: "calculateQuestionRiskScore q (JArr vs)
                = double_mean (replicate (length vs) (riskWeight_or_zero q))"
    if "vs \<noteq> []" "\<not> carries_riskValue q" "type q = QCheckbox" "options q \<noteq> None" for vs
  proof -
    from that obtain opts where opts: "options q = Some opts" and nr: "\<not> list_ex has_riskValue opts"
      by (auto simp: carries_riskValue_def)
    have "option_score opts (riskWeight_or_zero q) = (\<lambda>v. riskWeight_or_zero q)"
      by (rule ext) (simp add: option_score_no_riskValue [OF nr])
    then have "map (option_score opts (riskWeight_or_zero q)) vs
            = replicate (length vs) (riskWeight_or_zero q)"
      by (simp add: map_replicate_const)
    with that opts show ?thesis
      by (simp add: calculateQuestionRiskScore_def answer_is_empty_def or_number_zero Let_def
          double_mean_def reduce_add_def)
  qed
  have empty: "calculateQuestionRiskScore q a = Fin 0"
    if "a \<in> {JUndefined, JNull, JStr [], JArr []}"
  proof -
    from that have "answer_is_empty a" by (auto simp: answer_is_empty_iff)
    then show ?thesis by (simp add: calculateQuestionRiskScore_def)
  qed
  have plain: "calculateQuestionRiskScore q a = Fin (riskWeight_or_zero q)"
    if t: "truthy a" and ne: "a \<noteq> JArr []" and nc: "\<not> carries_riskValue q"
      and nb: "\<not> (type q = QCheckbox \<and> options q \<noteq> None \<and> isArray a)"
  proof -
    from t ne have nonempty: "\<not> answer_is_empty a"
      by (cases a) (auto simp: answer_is_empty_def)
    show ?thesis
    proof (cases "options q")
      case None
      with nonempty show ?thesis by (simp add: calculateQuestionRiskScore_def or_number_zero)
    next
      case (Some opts)
      show ?thesis
      proof (cases "type q = QSelect \<or> type q = QCheckbox")
        case False
        with nonempty Some show ?thesis
          by (simp add: calculateQuestionRiskScore_def or_number_zero)
      next
        case True
        with nc Some have "\<not> list_ex has_riskValue opts"
          by (simp add: carries_riskValue_def)
        then have sc: "\<And>w x. option_score opts w x = w"
          by (rule option_score_no_riskValue)
        show ?thesis
          using nonempty Some True nb
          by (cases a) (auto simp: calculateQuestionRiskScore_def sc or_number_zero)
      qed
    qed
  qed
  have single: "calculateQuestionRiskScore q (JArr [v]) = Fin (riskWeight_or_zero q)"
    if "\<not> carries_riskValue q" "type q = QCheckbox" "options q \<noteq> None"
      "is_double (riskWeight_or_zero q)"
    using mean [of "[v]"] that by (simp add: double_mean_single)
  from empty plain mean single show ?thesis
    by blast
qed

theorem unanswered_zero_answered_weight_witness:
  "JStr [] \<in> {JUndefined, JNull, JStr [], JArr []} \<and>
   calculateQuestionRiskScore mock_q2 (JStr []) = Fin 0 \<and>
   truthy (JNum 7) \<and> JNum 7 \<noteq> JArr [] \<and> \<not> carries_riskValue mock_q2 \<and>
   \<not> (type mock_q2 = QCheckbox \<and> options mock_q2 \<noteq> None \<and> isArray (JNum 7)) \<and>
   calculateQuestionRiskScore mock_q2 (JNum 7) = Fin 5 \<and>
   [JStr ''x'', JStr ''y'', JStr ''z''] \<noteq> [] \<and> \<not> carries_riskValue three_boxes_question \<and>
   type three_boxes_question = QCheckbox \<and> options three_boxes_question \<noteq> None \<and>
   calculateQuestionRiskScore three_boxes_question (JArr [JStr ''x'', JStr ''y'', JStr ''z''])
     = double_mean [riskWeight_or_zero three_boxes_question,
                    riskWeight_or_zero three_boxes_question,
                    riskWeight_or_zero three_boxes_question] \<and>
   is_double (riskWeight_or_zero three_boxes_question) \<and>
   calculateQuestionRiskScore three_boxes_question (JArr [JStr ''y''])
     = Fin (riskWeight_or_zero three_boxes_question)"
proof -
  have nc: "\<not> carries_riskValue mock_q2"
    by (simp add: carries_riskValue_def mock_q2_def plain_question_def)
  have w: "riskWeight_or_zero mock_q2 = 5"
    by (simp add: riskWeight_or_zero_def mock_q2_def plain_question_def)
  have t: "type mock_q2 \<noteq> QCheckbox"
    by (simp add: mock_q2_def plain_question_def)
  have b: "\<not> carries_riskValue three_boxes_question"
    "type three_boxes_question = QCheckbox" "options three_boxes_question \<noteq> None"
    by (simp_all add: carries_riskValue_def three_boxes_question_def plain_question_def)
  have d: "is_double (riskWeight_or_zero three_boxes_question)"
    by code_simp
  show ?thesis
    using unanswered_zero_answered_weight [of "JStr []" mock_q2 "[]" JNull]
      unanswered_zero_answered_weight [of "JNum 7" mock_q2 "[]" JNull]
      unanswered_zero_answered_weight
        [of JNull three_boxes_question "[JStr ''x'', JStr ''y'', JStr ''z'']" "JStr ''y''"]
      nc w t b d
    by simp
qed

text \<open>
  C3, as stated, fails. A checkbox question answered with the empty array scores 0 and
  not its \<open>riskWeight\<close> (the first guard returns before the mean is taken). And the
  score of a non-empty selection is not the arithmetic mean of the selected risks: with
  the risks 0.1, 0.2 and 0.3 the selection \<open>x, y, z\<close> scores 0.20000000000000004 and
  the selection \<open>z, y, x\<close> scores 0.19999999999999998.
\<close>

theorem empty_selection_scores_zero:
  "type checkbox_question = QCheckbox \<and>
   riskWeight_or_zero checkbox_question = 10 \<and>
   calculateQuestionRiskScore checkbox_question (JArr []) = Fin 0 \<and>
   calculateQuestionRiskScore graded_boxes_question (JArr [JStr ''x'', JStr ''y'', JStr ''z''])
     = Fin (7205759403792795 / 36028797018963968) \<and>
   calculateQuestionRiskScore graded_boxes_question (JArr [JStr ''z'', JStr ''y'', JStr ''x''])
     = Fin (7205759403792793 / 36028797018963968) \<and>
   Fin (7205759403792795 / 36028797018963968) \<noteq> Fin (7205759403792793 / 36028797018963968)"
  by code_simp

text \<open>
  C3, amended. For every checkbox question answered with an array: the empty array scores
  0. When the question has an options array, a non-empty array in which no selected
  option has the \<open>riskValue\<close> 0 scores the mean as double arithmetic computes it (the
  contributions added from left to right starting from 0, the sum divided by their
  number, every operation rounded to the nearest double), the contribution of a selected
  value being the matched option's \<open>riskValue\<close>, or the question's \<open>riskWeight\<close>
  where no option matches or the option has none. When the question has no options
  array, a non-empty array scores \<open>riskWeight\<close>.
\<close>

theorem checkbox_scores_mean:
  assumes "type q = QCheckbox"
  shows "calculateQuestionRiskScore q (JArr []) = Fin 0 \<and>
         (options q \<noteq> None \<and> vals \<noteq> [] \<and> (\<forall>v \<in> set vals. matched_riskValue q v \<noteq> Some 0)
            \<longrightarrow> calculateQuestionRiskScore q (JArr vals) =
                  double_mean (map (spec_selected_risk q) vals)) \<and>
         (options q = None \<and> vals \<noteq> []
            \<longrightarrow> calculateQuestionRiskScore q (JArr vals) = Fin (riskWeight_or_zero q))"
proof (intro conjI impI)
  show "calculateQuestionRiskScore q (JArr []) = Fin 0"
    by (simp add: calculateQuestionRiskScore_def answer_is_empty_def)
next
  assume h: "options q \<noteq> None \<and> vals \<noteq> [] \<and> (\<forall>v \<in> set vals. matched_riskValue q v \<noteq> Some 0)"
  then obtain opts where opts: "options q = Some opts"
    by auto
  from h have ne: "\<not> answer_is_empty (JArr vals)"
    by (simp add: answer_is_empty_def)
  have "\<And>v. v \<in> set vals \<Longrightarrow>
          option_score opts (riskWeight_or_zero q) v = spec_selected_risk q v"
    using h
    by (auto simp: option_score_def spec_selected_risk_def matched_riskValue_def opts
        or_number_def split: option.splits)
  then have mp: "map (option_score opts (riskWeight_or_zero q)) vals = map (spec_selected_risk q) vals"
    by simp
  from h ne opts assms
  show "calculateQuestionRiskScore q (JArr vals) = double_mean (map (spec_selected_risk q) vals)"
    by (simp add: calculateQuestionRiskScore_def or_number_zero double_mean_def reduce_add_def
        Let_def mp)
next
  assume "options q = None \<and> vals \<noteq> []"
  then show "calculateQuestionRiskScore q (JArr vals) = Fin (riskWeight_or_zero q)"
    by (simp add: calculateQuestionRiskScore_def answer_is_empty_def or_number_zero)
qed

theorem checkbox_scores_mean_witness:
  "type checkbox_question = QCheckbox \<and>
   calculateQuestionRiskScore checkbox_question (JArr []) = Fin 0 \<and>
   options checkbox_question \<noteq> None \<and>
   [JStr ''a'', JStr ''b''] \<noteq> [] \<and>
   matched_riskValue checkbox_question (JStr ''a'') \<noteq> Some 0 \<and>
   matched_riskValue checkbox_question (JStr ''b'') \<noteq> Some 0 \<and>
   calculateQuestionRiskScore checkbox_question (JArr [JStr ''a'', JStr ''b'']) = Fin 7 \<and>
   type (checkbox_question \<lparr> options := None \<rparr>) = QCheckbox \<and>
   options (checkbox_question \<lparr> options := None \<rparr>) = None \<and>
   calculateQuestionRiskScore (checkbox_question \<lparr> options := None \<rparr>)
     (JArr [JStr ''a'', JStr ''b'']) = Fin 10"
proof -
  have t: "type checkbox_question = QCheckbox"
    "type (checkbox_question \<lparr> options := None \<rparr>) = QCheckbox"
    by (simp_all add: checkbox_question_def plain_question_def)
  have o: "options checkbox_question \<noteq> None"
    by (simp add: checkbox_question_def plain_question_def)
  have a: "matched_riskValue checkbox_question (JStr ''a'') = Some 4"
    by code_simp
  have b: "matched_riskValue checkbox_question (JStr ''b'') = None"
    by code_simp
  have w: "riskWeight_or_zero checkbox_question = 10"
    "riskWeight_or_zero (checkbox_question \<lparr> options := None \<rparr>) = 10"
    by (simp_all add: riskWeight_or_zero_def checkbox_question_def plain_question_def)
  have m: "double_mean [4, 10] = Fin 7"
    by code_simp
  show ?thesis
    using checkbox_scores_mean [OF t(1), of "[JStr ''a'', JStr ''b'']"]
      checkbox_scores_mean [OF t(2), of "[JStr ''a'', JStr ''b'']"] t o a b w m
    by (simp add: spec_selected_risk_def)
qed

text \<open>
  C10. Nothing clamps the result: with a selected option whose \<open>riskValue\<close> (20) exceeds
  the question's \<open>riskWeight\<close> (10), \<open>totalScore\<close> is 200 against a \<open>maxScore\<close> of
  100, the percentage is 200, and the section's breakdown percentage is 200.
\<close>

theorem score_exceeds_maximum:
  "js_gt (totalScore (calculateRiskScore (config_of [heavy_question]) [(''h1'', JStr ''high'')]))
     (maxScore (calculateRiskScore (config_of [heavy_question]) [(''h1'', JStr ''high'')])) \<and>
   js_gt (percentage (calculateRiskScore (config_of [heavy_question]) [(''h1'', JStr ''high'')]))
     (Fin 100) \<and>
   breakdown (calculateRiskScore (config_of [heavy_question]) [(''h1'', JStr ''high'')]) ''section1''
     = Some \<lparr> score = Fin 20, entryMaxScore = Fin 10, entryPercentage = Fin 200 \<rparr> \<and>
   totalScore (calculateRiskScore (config_of [heavy_question]) [(''h1'', JStr ''high'')]) = Fin 200 \<and>
   maxScore (calculateRiskScore (config_of [heavy_question]) [(''h1'', JStr ''high'')]) = Fin 100"
  by code_simp

section \<open>Condition evaluator and validation: properties\<close>

text \<open>Reading an empty object gives \<open>undefined\<close> except at the names of the
  properties that every object inherits.\<close>

lemma lookup_Nil: "\<not> inherited k \<Longrightarrow> lookup [] k = JUndefined"
  by (simp add: lookup_def inherited_def map_of_eq_None_iff [THEN iffD2])

lemma lookup_Nil_inherited:
  "lookup [] ''constructor'' = JFunction ''Object'' 1"
  "lookup [] ''toString'' = JFunction ''toString'' 0"
  by (simp_all add: lookup_def object_prototype_def)

lemma not_inherited_examples: "\<not> inherited ''q1''" "\<not> inherited ''q2''"
  by (simp_all add: inherited_def object_prototype_def)

lemma zero_answer_visible:
  "isFieldVisible rt below_five_question [(''q1'', JNum 0)]"
  "isFieldVisible rt above_minus_one_question [(''q1'', JNum 0)]"
  by (simp_all add: isFieldVisible_def below_five_question_def above_minus_one_question_def
      plain_question_def operator_or_equals_def lookup_def)

text \<open>
  C4, as stated, fails: the guard of \<open>isFieldVisible\<close> tests \<open>=== undefined\<close>,
  \<open>=== null\<close> and \<open>=== ''\<close>, and the number 0 is none of them. With the referenced
  answer 0, a \<open>lessThan 5\<close> condition and a \<open>greaterThan -1\<close> condition both make
  the field visible.
\<close>

theorem zero_answer_is_dispatched:
  "isFieldVisible example_runtime below_five_question [(''q1'', JNum 0)] \<and>
   isFieldVisible example_runtime above_minus_one_question [(''q1'', JNum 0)]"
  by (simp add: zero_answer_visible)

text \<open>
  C4, amended. For every question with a conditional, let the current value be what
  \<open>formValues[questionId]\<close> reads. When it is undefined, null or the empty string,
  \<open>isFieldVisible\<close> is false whatever the operator. Every other value passes the
  guard, the falsy 0, \<open>false\<close> and \<open>NaN\<close> included, and the result is the
  operator's: \<open>equals\<close> (also when no operator is given) compares with \<open>===\<close>, or
  tests membership when the conditional's answer is an array; \<open>includes\<close> tests
  membership in an array value (one common element when the answer is an array too) and
  otherwise whether the string of the value contains the string of the answer;
  \<open>greaterThan\<close> and \<open>lessThan\<close> compare the numbers of value and answer; any other
  operator gives true.
\<close>

theorem empty_guard_precedes_operators:
  assumes "conditional q = Some c" and "lookup vs (questionId c) = cv"
  shows "(cv \<in> {JUndefined, JNull, JStr []} \<longrightarrow> \<not> isFieldVisible rt q vs) \<and>
         (cv \<notin> {JUndefined, JNull, JStr []} \<longrightarrow>
            (operator_or_equals c = ''equals'' \<longrightarrow>
               isFieldVisible rt q vs = equals_case (answer c) cv) \<and>
            (operator_or_equals c = ''includes'' \<longrightarrow>
               isFieldVisible rt q vs =
                 (case cv of
                    JArr xs \<Rightarrow>
                      (case answer c of
                         AStrs ss \<Rightarrow> list_ex (\<lambda>a. array_includes xs (JStr a)) ss
                       | _ \<Rightarrow> array_includes xs (answer_val (answer c)))
                  | _ \<Rightarrow> string_includes (js_String rt cv) (js_String rt (answer_val (answer c))))) \<and>
            (operator_or_equals c = ''greaterThan'' \<longrightarrow>
               isFieldVisible rt q vs =
                 number_gt (js_Number rt cv) (js_Number rt (answer_val (answer c)))) \<and>
            (operator_or_equals c = ''lessThan'' \<longrightarrow>
               isFieldVisible rt q vs =
                 number_lt (js_Number rt cv) (js_Number rt (answer_val (answer c)))) \<and>
            (operator_or_equals c \<notin> {''equals'', ''includes'', ''greaterThan'', ''lessThan''} \<longrightarrow>
               isFieldVisible rt q vs))"
  using assms
  by (simp add: isFieldVisible_def Let_def)

theorem empty_guard_precedes_operators_witness:
  "conditional below_five_question
     = Some \<lparr> questionId = ''q1'', answer = ANum 5, operator = Some ''lessThan'' \<rparr> \<and>
   lookup [] ''q1'' = JUndefined \<and>
   \<not> isFieldVisible example_runtime below_five_question [] \<and>
   lookup [(''q1'', JStr [])] ''q1'' = JStr [] \<and>
   \<not> isFieldVisible example_runtime below_five_question [(''q1'', JStr [])] \<and>
   lookup [(''q1'', JNum 0)] ''q1'' = JNum 0 \<and>
   JNum 0 \<notin> {JUndefined, JNull, JStr []} \<and>
   isFieldVisible example_runtime below_five_question [(''q1'', JNum 0)] \<and>
   conditional above_minus_one_question
     = Some \<lparr> questionId = ''q1'', answer = ANum (- 1), operator = Some ''greaterThan'' \<rparr> \<and>
   isFieldVisible example_runtime above_minus_one_question [(''q1'', JNum 0)] \<and>
   conditional when_zero_question
     = Some \<lparr> questionId = ''q1'', answer = ANum 0, operator = Some ''equals'' \<rparr> \<and>
   isFieldVisible example_runtime when_zero_question [(''q1'', JNum 0)] \<and>
   conditional when_false_question
     = Some \<lparr> questionId = ''q1'', answer = ABool False, operator = None \<rparr> \<and>
   lookup [(''q1'', JBool False)] ''q1'' = JBool False \<and>
   JBool False \<notin> {JUndefined, JNull, JStr []} \<and>
   isFieldVisible example_runtime when_false_question [(''q1'', JBool False)] \<and>
   conditional unknown_operator_question
     = Some \<lparr> questionId = ''q1'', answer = ANum 0, operator = Some ''notEquals'' \<rparr> \<and>
   lookup [(''q1'', JNaN)] ''q1'' = JNaN \<and>
   JNaN \<notin> {JUndefined, JNull, JStr []} \<and>
   isFieldVisible example_runtime unknown_operator_question [(''q1'', JNaN)] \<and>
   conditional includes_question
     = Some \<lparr> questionId = ''q1'', answer = AStrs [''a''], operator = Some ''includes'' \<rparr> \<and>
   lookup [(''q1'', JArr [JStr ''b'', JStr ''a''])] ''q1'' = JArr [JStr ''b'', JStr ''a''] \<and>
   JArr [JStr ''b'', JStr ''a''] \<notin> {JUndefined, JNull, JStr []} \<and>
   isFieldVisible example_runtime includes_question [(''q1'', JArr [JStr ''b'', JStr ''a''])]"
proof -
  have c: "conditional below_five_question
             = Some \<lparr> questionId = ''q1'', answer = ANum 5, operator = Some ''lessThan'' \<rparr>"
    by (simp add: below_five_question_def plain_question_def)
  have d: "conditional above_minus_one_question
             = Some \<lparr> questionId = ''q1'', answer = ANum (- 1), operator = Some ''greaterThan'' \<rparr>"
    by (simp add: above_minus_one_question_def plain_question_def)
  have e: "conditional when_zero_question
             = Some \<lparr> questionId = ''q1'', answer = ANum 0, operator = Some ''equals'' \<rparr>"
    by (simp add: when_zero_question_def plain_question_def)
  have f: "conditional when_false_question
             = Some \<lparr> questionId = ''q1'', answer = ABool False, operator = None \<rparr>"
    by (simp add: when_false_question_def plain_question_def)
  have g: "conditional unknown_operator_question
             = Some \<lparr> questionId = ''q1'', answer = ANum 0, operator = Some ''notEquals'' \<rparr>"
    by (simp add: unknown_operator_question_def plain_question_def)
  have h: "conditional includes_question
             = Some \<lparr> questionId = ''q1'', answer = AStrs [''a''], operator = Some ''includes'' \<rparr>"
    by (simp add: includes_question_def plain_question_def)
  have l: "lookup [] ''q1'' = JUndefined"
    "lookup [(''q1'', JStr [])] ''q1'' = JStr []"
    "lookup [(''q1'', JNum 0)] ''q1'' = JNum 0"
    "lookup [(''q1'', JBool False)] ''q1'' = JBool False"
    "lookup [(''q1'', JNaN)] ''q1'' = JNaN"
    "lookup [(''q1'', JArr [JStr ''b'', JStr ''a''])] ''q1'' = JArr [JStr ''b'', JStr ''a'']"
    by (simp_all add: lookup_def object_prototype_def)
  have l': "lookup [] (questionId \<lparr> questionId = ''q1'', answer = ANum 5, operator = Some ''lessThan'' \<rparr>) = JUndefined"
    using l(1) by simp
  show ?thesis
    using empty_guard_precedes_operators [OF c, of "[]" JUndefined example_runtime]
      empty_guard_precedes_operators [OF c, of "[(''q1'', JStr [])]" "JStr []" example_runtime]
      empty_guard_precedes_operators [OF c, of "[(''q1'', JNum 0)]" "JNum 0" example_runtime]
      empty_guard_precedes_operators [OF d, of "[(''q1'', JNum 0)]" "JNum 0" example_runtime]
      empty_guard_precedes_operators [OF e, of "[(''q1'', JNum 0)]" "JNum 0" example_runtime]
      empty_guard_precedes_operators [OF f, of "[(''q1'', JBool False)]" "JBool False" example_runtime]
      empty_guard_precedes_operators [OF g, of "[(''q1'', JNaN)]" JNaN example_runtime]
      empty_guard_precedes_operators [OF h, of "[(''q1'', JArr [JStr ''b'', JStr ''a''])]"
        "JArr [JStr ''b'', JStr ''a'']" example_runtime]
      c d e f g h l
    by (simp add: operator_or_equals_def equals_case_def array_includes_def)
qed

text \<open>
  The two evaluators agree on a present value for \<open>equals\<close>, \<open>greaterThan\<close> and
  \<open>lessThan\<close>, and for \<open>includes\<close> unless the current value and the conditional's
  answer are both arrays; on any other operator \<open>isFieldVisible\<close> answers true and
  \<open>evaluateCondition\<close> false.
\<close>

lemma evaluators_agree:
  assumes "conditional q = Some c"
    and "lookup vs (questionId c) = cv"
    and "\<not> value_missing cv"
  shows "operator_or_equals c \<in> {''equals'', ''greaterThan'', ''lessThan''}
           \<Longrightarrow> isFieldVisible rt q vs = evaluateCondition rt (Some c) cv"
    and "operator_or_equals c = ''includes'' \<Longrightarrow> \<not> (isArray cv \<and> isArray (answer_val (answer c)))
           \<Longrightarrow> isFieldVisible rt q vs = evaluateCondition rt (Some c) cv"
    and "operator_or_equals c \<notin> {''equals'', ''includes'', ''greaterThan'', ''lessThan''}
           \<Longrightarrow> isFieldVisible rt q vs \<and> \<not> evaluateCondition rt (Some c) cv"
proof -
  show "operator_or_equals c \<in> {''equals'', ''greaterThan'', ''lessThan''}
          \<Longrightarrow> isFieldVisible rt q vs = evaluateCondition rt (Some c) cv"
    using assms by (auto simp: isFieldVisible_def evaluateCondition_def value_missing_def Let_def)
  show "operator_or_equals c = ''includes'' \<Longrightarrow> \<not> (isArray cv \<and> isArray (answer_val (answer c)))
          \<Longrightarrow> isFieldVisible rt q vs = evaluateCondition rt (Some c) cv"
    using assms
    by (cases cv; cases "answer c")
      (simp_all add: isFieldVisible_def evaluateCondition_def value_missing_def Let_def)
  show "operator_or_equals c \<notin> {''equals'', ''includes'', ''greaterThan'', ''lessThan''}
          \<Longrightarrow> isFieldVisible rt q vs \<and> \<not> evaluateCondition rt (Some c) cv"
    using assms by (auto simp: isFieldVisible_def evaluateCondition_def value_missing_def Let_def)
qed

text \<open>
  C5. For the operator \<open>includes\<close> the two evaluators do not compute the same result:
  with the current value \<open>['a', 'b']\<close> and the conditional's answer \<open>['a']\<close>,
  \<open>isFieldVisible\<close> tests whether the arrays intersect and answers true, while
  \<open>evaluateCondition\<close> asks whether the array \<open>['a']\<close> itself is an element of the
  current value and answers false.
\<close>

theorem includes_on_arrays_differs:
  "\<forall>rt. isFieldVisible rt includes_question [(''q1'', JArr [JStr ''a'', JStr ''b''])] \<and>
        \<not> evaluateCondition rt (conditional includes_question)
            (lookup [(''q1'', JArr [JStr ''a'', JStr ''b''])] ''q1'')"
  by (simp add: isFieldVisible_def evaluateCondition_def includes_question_def
      plain_question_def operator_or_equals_def lookup_def array_includes_def)

text \<open>What one turn of \<open>validateForm\<close> does with a required, unconditional question
  when there are no values.\<close>

lemma validate_step_required:
  assumes "required q" and "conditional q = None" and "\<not> inherited (qid q)"
  shows "validate_step rt [] (Inr errors) q = Inr (errors(qid q \<mapsto> label q @ '' is required''))"
  using assms
  by (simp add: validate_step_def isFieldVisible_def validateField_def lookup_Nil
      value_missing_def)

lemma validate_fold_required:
  assumes "\<forall>q \<in> set qs. required q \<and> conditional q = None \<and> \<not> inherited (qid q)"
  shows "foldl (validate_step rt []) (Inr errors) qs =
           Inr (errors ++ map_of (rev (map (\<lambda>q. (qid q, label q @ '' is required'')) qs)))"
  using assms
proof (induction qs arbitrary: errors)
  case Nil
  then show ?case by simp
next
  case (Cons q qs)
  then have step: "validate_step rt [] (Inr errors) q
                     = Inr (errors(qid q \<mapsto> label q @ '' is required''))"
    by (simp add: validate_step_required)
  have "foldl (validate_step rt []) (Inr errors) (q # qs) =
          foldl (validate_step rt []) (Inr (errors(qid q \<mapsto> label q @ '' is required''))) qs"
    by (simp add: step)
  also have "\<dots> = Inr (errors(qid q \<mapsto> label q @ '' is required'')
                 ++ map_of (rev (map (\<lambda>q. (qid q, label q @ '' is required'')) qs)))"
    using Cons by simp
  finally show ?case
    by (simp add: map_add_upd_left)
qed

text \<open>
  C6, as stated, fails: a required question behind a condition is hidden when there are
  no values, and hidden questions are not validated; two questions with the same id
  share one entry of the map; and a question whose id names a property that every
  object inherits (\<open>constructor\<close>) reads that property from the empty object, which
  is not a missing value.
\<close>

theorem required_but_no_entry:
  "required conditional_required_question \<and>
   validateForm example_runtime [conditional_required_question] [] = Inr Map.empty \<and>
   card (dom (Map.empty :: string \<rightharpoonup> string)) = 0 \<and>
   required name_question \<and> required name_again_question \<and>
   validateForm example_runtime [name_question, name_again_question] []
     = Inr [''q1'' \<mapsto> ''Name again is required''] \<and>
   card (dom [''q1'' \<mapsto> ''Name again is required'']) = 1 \<and>
   required constructor_question \<and> required email_question \<and>
   validateForm example_runtime [constructor_question, email_question] []
     = Inr [''q2'' \<mapsto> ''Email is required''] \<and>
   card (dom [''q2'' \<mapsto> ''Email is required'']) = 1"
proof -
  have a: "validateForm example_runtime [conditional_required_question] [] = Inr Map.empty"
    by (simp add: validateForm_def validate_step_def isFieldVisible_def validateField_def
        conditional_required_question_def plain_question_def lookup_Nil not_inherited_examples)
  have b: "validateForm example_runtime [name_question, name_again_question] []
             = Inr [''q1'' \<mapsto> ''Name again is required'']"
    by (simp add: validateForm_def validate_step_def isFieldVisible_def validateField_def
        lookup_Nil not_inherited_examples value_missing_def name_question_def
        name_again_question_def plain_question_def)
  have c: "validate_step example_runtime [] (Inr Map.empty) constructor_question = Inr Map.empty"
    by (simp add: validate_step_def isFieldVisible_def validateField_def lookup_Nil_inherited
        value_missing_def constructor_question_def plain_question_def text_case_def
        number_truthy_def string_truthy_def)
  have d: "validate_step example_runtime [] (Inr Map.empty) email_question
             = Inr [''q2'' \<mapsto> ''Email is required'']"
    by (simp add: validate_step_def isFieldVisible_def validateField_def lookup_Nil
        not_inherited_examples value_missing_def email_question_def plain_question_def)
  have e: "validateForm example_runtime [constructor_question, email_question] []
             = Inr [''q2'' \<mapsto> ''Email is required'']"
    by (simp add: validateForm_def c d)
  have f: "required conditional_required_question" "required name_question"
    "required name_again_question" "required constructor_question" "required email_question"
    by (simp_all add: conditional_required_question_def name_question_def
        name_again_question_def constructor_question_def email_question_def plain_question_def)
  from a b e f show ?thesis
    by simp
qed

text \<open>
  C6, amended. For every list of N required questions of which none has a conditional,
  no two share an id, and no id is the name of a property that every object inherits
  (\<open>constructor\<close>, \<open>toString\<close>, \<open>valueOf\<close>, \<open>hasOwnProperty\<close>, ...),
  \<open>validateForm(questions, {})\<close> returns a map with exactly N entries, its keys the
  ids of the questions, the entry of each question being "\<open>label\<close> is required".
\<close>

theorem required_questions_all_reported:
  assumes "\<forall>q \<in> set qs. required q \<and> conditional q = None \<and> \<not> inherited (qid q)"
    and "distinct (map qid qs)"
  shows "\<exists>errors. validateForm rt qs [] = Inr errors \<and>
           card (dom errors) = length qs \<and>
           dom errors = qid ` set qs \<and>
           (\<forall>q \<in> set qs. errors (qid q) = Some (label q @ '' is required''))"
proof -
  let ?entries = "map (\<lambda>q. (qid q, label q @ '' is required'')) qs"
  let ?errors = "map_of (rev ?entries)"
  have form: "validateForm rt qs [] = Inr ?errors"
    using validate_fold_required [OF assms(1), of rt Map.empty]
    by (simp add: validateForm_def)
  have dom_eq: "dom ?errors = qid ` set qs"
    by (simp add: dom_map_of_conv_image_fst image_image)
  have "card (qid ` set qs) = length qs"
    using assms(2) by (metis distinct_card length_map set_map)
  then have size: "card (dom ?errors) = length qs"
    by (simp only: dom_eq)
  have each: "\<forall>q \<in> set qs. ?errors (qid q) = Some (label q @ '' is required'')"
  proof
    fix q assume q: "q \<in> set qs"
    have "distinct (map fst (rev ?entries))"
      using assms(2) by (simp add: rev_map [symmetric] comp_def)
    moreover have "(qid q, label q @ '' is required'') \<in> set (rev ?entries)"
      using q by auto
    ultimately show "?errors (qid q) = Some (label q @ '' is required'')"
      by (simp only: map_of_is_SomeI)
  qed
  from form size dom_eq each show ?thesis
    by blast
qed

theorem required_questions_all_reported_witness:
  "required name_question \<and> conditional name_question = None \<and>
   \<not> inherited (qid name_question) \<and>
   required email_question \<and> conditional email_question = None \<and>
   \<not> inherited (qid email_question) \<and>
   distinct (map qid [name_question, email_question]) \<and>
   (\<exists>errors. validateForm example_runtime [name_question, email_question] [] = Inr errors \<and>
      card (dom errors) = 2 \<and>
      errors ''q1'' = Some ''Name is required'' \<and>
      errors ''q2'' = Some ''Email is required'')"
proof -
  have a: "\<forall>q \<in> set [name_question, email_question].
             required q \<and> conditional q = None \<and> \<not> inherited (qid q)"
    by (simp add: name_question_def email_question_def plain_question_def not_inherited_examples)
  have d: "distinct (map qid [name_question, email_question])"
    by (simp add: name_question_def email_question_def plain_question_def)
  obtain errors where
    "validateForm example_runtime [name_question, email_question] [] = Inr errors"
    "card (dom errors) = length [name_question, email_question]"
    "\<forall>q \<in> set [name_question, email_question]. errors (qid q) = Some (label q @ '' is required'')"
    using required_questions_all_reported [OF a d, of example_runtime] by blast
  then have "validateForm example_runtime [name_question, email_question] [] = Inr errors \<and>
           card (dom errors) = 2 \<and>
           errors ''q1'' = Some ''Name is required'' \<and>
           errors ''q2'' = Some ''Email is required''"
    by (simp add: name_question_def email_question_def plain_question_def)
  then show ?thesis
    using a d by auto
qed

section \<open>Persistence store: properties\<close>

lemma json_omitted_iff: "json_omitted v \<longleftrightarrow> v = JUndefined \<or> (\<exists>n a. v = JFunction n a)"
  by (cases v) simp_all

lemma json_value_undefined: "json_value v = JUndefined \<longleftrightarrow> json_omitted v"
  by (cases v) simp_all

lemma json_omitted_json_value: "json_omitted (json_value v) \<longleftrightarrow> json_omitted v"
  by (cases v) simp_all

lemma json_value_idem:
  "json_value (json_value v) = json_value v"
  "json_elements (json_elements xs) = json_elements xs"
  "json_properties (json_properties kvs) = json_properties kvs"
  by (induction v and xs and kvs rule: json_value_json_elements_json_properties.induct)
    (simp_all add: json_omitted_json_value)

lemma is_json_fixed:
  "is_json v \<Longrightarrow> json_value v = v"
  "are_json xs \<Longrightarrow> json_elements xs = xs"
  "are_json_properties kvs \<Longrightarrow> json_properties kvs = kvs"
proof (induction v and xs and kvs rule: is_json_are_json_are_json_properties.induct)
  case (13 x xs)
  then show ?case by (cases x) simp_all
next
  case (15 kv kvs)
  then show ?case by (cases "snd kv") (simp_all add: prod_eq_iff)
qed simp_all

lemma json_elements_append:
  "json_elements (xs @ ys) = json_elements xs @ json_elements ys"
  by (induction xs) simp_all

lemma undefined_json_value: "JUndefined = json_value v \<longleftrightarrow> json_omitted v"
  by (cases v) simp_all

lemma json_elements_no_undefined: "JUndefined \<notin> set (json_elements xs)"
  by (induction xs) (simp_all add: undefined_json_value)

lemma json_elements_fixed_iff:
  "json_elements xs = xs \<longleftrightarrow> (\<forall>x \<in> set xs. x \<noteq> JUndefined \<and> json_value x = x)"
  by (induction xs) (auto simp: json_omitted_iff)

lemma json_elements_filter:
  "json_elements xs = xs \<Longrightarrow> json_elements (filter P xs) = filter P xs"
  by (simp add: json_elements_fixed_iff)

text \<open>What is read from the store has been through \<open>JSON.parse\<close>.\<close>

lemma parse_or_array:
  assumes "parse_or (JArr []) stored = JArr xs"
  shows "json_elements xs = xs \<and> JUndefined \<notin> set xs"
proof (cases stored)
  case None
  with assms show ?thesis by (simp add: parse_or_def)
next
  case (Some stored_text)
  show ?thesis
  proof (cases stored_text)
    case (Json v)
    with assms Some have "json_value v = JArr xs \<or> xs = []"
      by (simp add: parse_or_def split: if_splits)
    then have "json_value (JArr xs) = JArr xs"
      using json_value_idem(1) [of v] by auto
    then have "json_elements xs = xs" by simp
    then show ?thesis
      using json_elements_no_undefined [of xs] by simp
  next
    case (Raw s)
    with assms Some show ?thesis by (simp add: parse_or_def split: if_splits)
  qed
qed

lemma draft_key_not_list_key: "getDraftKey formId draftId \<noteq> getDraftsListKey formId'"
  by (simp add: getDraftKey_def getDraftsListKey_def STORAGE_PREFIX_def)

lemma strict_equal_JStr: "strict_equal a (JStr s) \<longleftrightarrow> a = JStr s"
  by (cases a) auto

text \<open>
  C7, as stated, fails: \<open>isDraft\<close> is \<open>!!draftId\<close>, so the draft id \<open>''\<close> (which is
  not null, and is what \<open>importFormState\<close> passes on for a state that is no draft) gives
  \<open>isDraft = false\<close>.
\<close>

theorem empty_draft_id_is_no_draft:
  "Some [] \<noteq> (None :: string option) \<and>
   fst (saveFormState ''t1'' ''t2'' ''form1'' [] (Some []) empty_storage)
     = Inr (persistedFormState ''form1'' [] (autoSaveState ''t1'' False []) ''t2'') \<and>
   get_prop
     (get_prop (persistedFormState ''form1'' [] (autoSaveState ''t1'' False []) ''t2'') ''autoSave'')
     ''isDraft'' = JBool False"
  by (simp add: saveFormState_def setItem_def empty_storage_def persistedFormState_def
      autoSaveState_def string_truthy_def string_or_def lookup_def Let_def)

text \<open>
  C7, amended. \<open>saveFormState(formId, values, draftId)\<close> builds a state with the given
  \<open>formId\<close> and \<open>values\<close>, an \<open>autoSave\<close> whose \<open>lastSavedAt\<close> is the current
  time, whose \<open>isDraft\<close> says that \<open>draftId\<close> is a non-empty string, and whose
  \<open>draftId\<close> is \<open>draftId\<close> or \<open>''\<close> when absent, and a top-level \<open>timestamp\<close>.
  When the store accepts the write, the state is stored under the form's key and
  returned; when it refuses, the error "Failed to save form state" is thrown and the
  store is unchanged.
\<close>

theorem saveFormState_result:
  "\<exists>st. get_prop st ''formId'' = JStr formId \<and>
        get_prop st ''values'' = JObj values \<and>
        get_prop (get_prop st ''autoSave'') ''lastSavedAt'' = JStr t1 \<and>
        get_prop (get_prop st ''autoSave'') ''isDraft'' = JBool (draftId \<noteq> None \<and> draftId \<noteq> Some []) \<and>
        get_prop (get_prop st ''autoSave'') ''draftId''
          = JStr (case draftId of None \<Rightarrow> [] | Some d \<Rightarrow> d) \<and>
        get_prop st ''timestamp'' = JStr t2 \<and>
        saveFormState t1 t2 formId values draftId ls =
          (if accepts ls (items ls) (getStorageKey formId) (JSON_stringify st)
           then (Inr st, ls\<lparr>items := (items ls)(getStorageKey formId \<mapsto> JSON_stringify st)\<rparr>)
           else (Inl (Error ''Failed to save form state''), ls))"
proof -
  let ?st = "persistedFormState formId values
               (autoSaveState t1 (string_truthy draftId) (string_or draftId [])) t2"
  have fields:
    "get_prop ?st ''formId'' = JStr formId"
    "get_prop ?st ''values'' = JObj values"
    "get_prop (get_prop ?st ''autoSave'') ''lastSavedAt'' = JStr t1"
    "get_prop ?st ''timestamp'' = JStr t2"
    by (simp_all add: persistedFormState_def autoSaveState_def lookup_def)
  have draft:
    "get_prop (get_prop ?st ''autoSave'') ''isDraft'' = JBool (draftId \<noteq> None \<and> draftId \<noteq> Some [])"
    "get_prop (get_prop ?st ''autoSave'') ''draftId''
       = JStr (case draftId of None \<Rightarrow> [] | Some d \<Rightarrow> d)"
    by (cases draftId;
        simp add: persistedFormState_def autoSaveState_def lookup_def string_truthy_def
          string_or_def)+
  have result:
    "saveFormState t1 t2 formId values draftId ls =
       (if accepts ls (items ls) (getStorageKey formId) (JSON_stringify ?st)
        then (Inr ?st, ls\<lparr>items := (items ls)(getStorageKey formId \<mapsto> JSON_stringify ?st)\<rparr>)
        else (Inl (Error ''Failed to save form state''), ls))"
    by (simp add: saveFormState_def setItem_def Let_def)
  from fields draft result show ?thesis
    by blast
qed

text \<open>
  C9, as stated, fails: an answer that JSON cannot hold does not come back. A \<open>File\<close>
  (what the file field stores) is read back as the empty object and \<open>NaN\<close> as
  \<open>null\<close>; and when the store refuses the write, \<open>saveFormState\<close> throws and
  \<open>loadFormState\<close> finds nothing.
\<close>

theorem unrepresentable_values_do_not_return:
  "get_prop
     (loadFormState ''form1''
        (snd (saveFormState ''t1'' ''t2'' ''form1'' [(''q2'', JNaN)] None empty_storage)))
     ''values'' = JObj [(''q2'', JNull)] \<and>
   get_prop
     (loadFormState ''form1''
        (snd (saveFormState ''t1'' ''t2'' ''form1''
                [(''q6'', JArr [JFile ''a.pdf'' ''application/pdf'' 1000])] None empty_storage)))
     ''values'' = JObj [(''q6'', JArr [JObj []])] \<and>
   loadFormState ''form1''
     (snd (saveFormState ''t1'' ''t2'' ''form1'' [(''q1'', JStr ''a'')] None full_storage)) = JNull"
  by (simp add: saveFormState_def loadFormState_def setItem_def getItem_def parse_or_def
      JSON_stringify_def empty_storage_def full_storage_def persistedFormState_def
      autoSaveState_def string_truthy_def string_or_def lookup_def Let_def)

text \<open>
  C9, amended. For every \<open>formId\<close> and every \<open>FormValues\<close> whose answers are
  JSON-representable, if \<open>saveFormState(formId, v)\<close> returns (does not throw), then
  \<open>loadFormState(formId)\<close> right after it returns the saved state: it is not null and
  its \<open>values\<close> field equals \<open>v\<close>.
\<close>

theorem load_after_save:
  assumes "are_json_properties values"
    and "saveFormState t1 t2 formId values draftId ls = (Inr st, ls')"
  shows "loadFormState formId ls' = st \<and>
         loadFormState formId ls' \<noteq> JNull \<and>
         get_prop (loadFormState formId ls') ''values'' = JObj values"
proof -
  let ?auto = "autoSaveState t1 (string_truthy draftId) (string_or draftId [])"
  have st: "st = persistedFormState formId values ?auto t2"
    and ls': "ls' = ls\<lparr>items := (items ls)(getStorageKey formId \<mapsto> JSON_stringify st)\<rparr>"
    using assms(2)
    by (auto simp: saveFormState_def setItem_def Let_def split: if_splits)
  have "is_json st"
    using assms(1) by (simp add: st persistedFormState_def autoSaveState_def)
  then have fixed: "json_value st = st"
    by (rule is_json_fixed(1))
  have "\<not> json_omitted st"
    by (simp add: st persistedFormState_def)
  then have "loadFormState formId ls' = json_value st"
    by (simp add: loadFormState_def getItem_def parse_or_def ls' JSON_stringify_def)
  with fixed have load: "loadFormState formId ls' = st"
    by simp
  moreover have "st \<noteq> JNull"
    by (simp add: st persistedFormState_def)
  moreover have "get_prop st ''values'' = JObj values"
    by (simp add: st persistedFormState_def lookup_def)
  ultimately show ?thesis
    by simp
qed

theorem load_after_save_witness:
  "are_json_properties [(''q1'', JStr ''answer1''), (''q2'', JNum 42)] \<and>
   (\<exists>st ls'. saveFormState ''t1'' ''t2'' ''test-form'' [(''q1'', JStr ''answer1''), (''q2'', JNum 42)]
                None empty_storage = (Inr st, ls') \<and>
      loadFormState ''test-form'' ls' \<noteq> JNull \<and>
      get_prop (loadFormState ''test-form'' ls') ''values''
        = JObj [(''q1'', JStr ''answer1''), (''q2'', JNum 42)])"
proof -
  have j: "are_json_properties [(''q1'', JStr ''answer1''), (''q2'', JNum 42)]"
    by simp
  obtain st ls' where
    s: "saveFormState ''t1'' ''t2'' ''test-form'' [(''q1'', JStr ''answer1''), (''q2'', JNum 42)]
          None empty_storage = (Inr st, ls')"
    by (simp add: saveFormState_def setItem_def empty_storage_def Let_def)
  show ?thesis
    using load_after_save [OF j s] j s by blast
qed

lemma array_push_Inr:
  "array_push v x = Inr l \<longleftrightarrow> (\<exists>xs. v = JArr xs \<and> l = JArr (xs @ [x]))"
  by (cases v) auto

lemma draftEntry_fixed: "json_value (draftEntry i n c u) = draftEntry i n c u"
  by (simp add: draftEntry_def)

lemma getDraftsList_array:
  assumes "getDraftsList formId ls = JArr xs"
  shows "json_elements xs = xs" and "JUndefined \<notin> set xs"
  using parse_or_array [of "getItem ls (getDraftsListKey formId)" xs] assms
  by (simp_all add: getDraftsList_def)

lemma getDraftsList_other_key:
  "k \<noteq> getDraftsListKey formId \<Longrightarrow>
     getDraftsList formId (ls\<lparr>items := (items ls)(k := v)\<rparr>) = getDraftsList formId ls"
  by (simp add: getDraftsList_def getItem_def)

lemma getDraftsList_written:
  "getDraftsList formId
     (ls\<lparr>items := (items ls)(getDraftsListKey formId \<mapsto> JSON_stringify (JArr xs))\<rparr>)
     = json_value (JArr xs)"
  by (simp add: getDraftsList_def getItem_def parse_or_def JSON_stringify_def)

text \<open>A successful \<open>saveDraft\<close> appends one entry to the index, whatever was there.\<close>

lemma saveDraft_appends:
  assumes "saveDraft now t1 t2 t3 t4 formId name values draftId ls = (Inr newId, ls')"
  shows "\<exists>entries. getDraftsList formId ls = JArr entries \<and>
           getDraftsList formId ls' = JArr (entries @ [draftEntry newId name t3 t4])"
proof -
  let ?id = "string_or draftId (''draft-'' @ decimal now)"
  let ?key = "getDraftKey formId ?id"
  let ?state = "JSON_stringify (persistedFormState formId values (autoSaveState t1 True ?id) t2)"
  let ?ls1 = "ls\<lparr>items := (items ls)(?key \<mapsto> ?state)\<rparr>"
  let ?entry = "draftEntry ?id name t3 t4"
  have first: "setItem ls ?key ?state = Inr ?ls1"
    using assms by (auto simp: saveDraft_def setItem_def Let_def split: if_splits)
  have same: "getDraftsList formId ?ls1 = getDraftsList formId ls"
    by (rule getDraftsList_other_key) (rule draft_key_not_list_key)
  from assms first obtain l where
    push: "array_push (getDraftsList formId ?ls1) ?entry = Inr l" and
    rest: "(case setItem ?ls1 (getDraftsListKey formId) (JSON_stringify l) of
             Inl e \<Rightarrow> (Inl (Error ''Failed to save draft''), ?ls1)
           | Inr ls2 \<Rightarrow> (Inr ?id, ls2)) = (Inr newId, ls')"
    by (auto simp: saveDraft_def Let_def split: sum.splits)
  from push same obtain entries where
    before: "getDraftsList formId ls = JArr entries" and l: "l = JArr (entries @ [?entry])"
    by (auto simp: array_push_Inr)
  from rest have id: "newId = ?id"
    and ls': "ls' = ?ls1\<lparr>items := (items ?ls1)(getDraftsListKey formId \<mapsto> JSON_stringify l)\<rparr>"
    by (auto simp: setItem_def split: if_splits)
  have "getDraftsList formId ls' = json_value l"
    unfolding ls' l by (rule getDraftsList_written)
  also have "\<dots> = JArr (entries @ [?entry])"
    using getDraftsList_array(1) [OF before]
    by (simp add: l json_elements_append draftEntry_fixed draftEntry_def)
  finally show ?thesis
    using before id by simp
qed

lemma id_differs_object:
  "d \<noteq> JNull \<Longrightarrow> d \<noteq> JUndefined \<Longrightarrow>
     id_differs draftId d = Inr (get_prop d ''id'' \<noteq> JStr draftId)"
  by (cases d) (simp_all add: strict_equal_JStr)

lemma filter_drafts_result:
  "JNull \<notin> set ds \<Longrightarrow> JUndefined \<notin> set ds \<Longrightarrow>
     filter_drafts draftId ds = Inr (filter (\<lambda>d. get_prop d ''id'' \<noteq> JStr draftId) ds)"
  by (induction ds) (auto simp: id_differs_object)

text \<open>\<open>deleteDraft\<close> keeps, in their order, the entries whose \<open>id\<close> is not the
  deleted one, when the store accepts the write of the index.\<close>

lemma deleteDraft_filters:
  assumes "getDraftsList formId ls = JArr entries"
    and "JNull \<notin> set entries"
    and "accepts ls (items (removeItem ls (getDraftKey formId draftId))) (getDraftsListKey formId)
           (JSON_stringify (JArr (filter (\<lambda>d. get_prop d ''id'' \<noteq> JStr draftId) entries)))"
  shows "getDraftsList formId (deleteDraft formId draftId ls) =
           JArr (filter (\<lambda>d. get_prop d ''id'' \<noteq> JStr draftId) entries)"
proof -
  let ?ls1 = "removeItem ls (getDraftKey formId draftId)"
  let ?kept = "filter (\<lambda>d. get_prop d ''id'' \<noteq> JStr draftId) entries"
  have "getDraftsList formId ?ls1 = getDraftsList formId ls"
    unfolding removeItem_def
    by (rule getDraftsList_other_key) (rule draft_key_not_list_key)
  with assms(1) have same: "getDraftsList formId ?ls1 = JArr entries"
    by simp
  have filtered: "array_filter_drafts draftId (getDraftsList formId ?ls1) = Inr (JArr ?kept)"
    using assms(2) getDraftsList_array(2) [OF assms(1)]
    by (simp add: same filter_drafts_result)
  have "accepts ?ls1 = accepts ls"
    by (simp add: removeItem_def)
  with assms(3) have
    "setItem ?ls1 (getDraftsListKey formId) (JSON_stringify (JArr ?kept)) =
       Inr (?ls1\<lparr>items := (items ?ls1)(getDraftsListKey formId \<mapsto> JSON_stringify (JArr ?kept))\<rparr>)"
    by (simp add: setItem_def)
  then have "deleteDraft formId draftId ls =
          ?ls1\<lparr>items := (items ?ls1)(getDraftsListKey formId \<mapsto> JSON_stringify (JArr ?kept))\<rparr>"
    by (simp add: deleteDraft_def Let_def filtered)
  then have "getDraftsList formId (deleteDraft formId draftId ls) = json_value (JArr ?kept)"
    by (simp only: getDraftsList_written)
  also have "\<dots> = JArr ?kept"
    using getDraftsList_array(1) [OF assms(1)] by (simp add: json_elements_filter)
  finally show ?thesis .
qed


lemma saveDraft_accepts:
  "accepts (snd (saveDraft now t1 t2 t3 t4 formId name values draftId ls)) = accepts ls"
  by (simp add: saveDraft_def setItem_def Let_def split: sum.splits)

lemma saveDraft_succeeds:
  assumes "accepts ls = (\<lambda>m k v. True)" and "getDraftsList formId ls = JArr entries"
  shows "fst (saveDraft now t1 t2 t3 t4 formId name values draftId ls) =
           Inr (string_or draftId (''draft-'' @ decimal now))"
proof -
  have "\<And>k v. getDraftsList formId (ls\<lparr>items := (items ls)(getDraftKey formId k \<mapsto> v)\<rparr>)
          = JArr entries"
    using assms(2) by (simp add: getDraftsList_other_key draft_key_not_list_key)
  then show ?thesis
    by (simp add: saveDraft_def setItem_def Let_def assms(1))
qed

lemma empty_storage_list: "getDraftsList ''form1'' empty_storage = JArr []"
  by (simp add: getDraftsList_def getItem_def parse_or_def empty_storage_def)

lemma one_draft_saved:
  "saveDraft 1 ''t1'' ''t2'' ''t3'' ''t4'' ''form1'' ''Draft 1'' [(''q1'', JStr ''a'')]
     (Some ''d1'') empty_storage = (Inr ''d1'', one_draft_storage)"
  using saveDraft_succeeds [OF _ empty_storage_list, of 1 "''t1''" "''t2''" "''t3''" "''t4''"
      "''Draft 1''" "[(''q1'', JStr ''a'')]" "Some ''d1''"]
  by (simp add: one_draft_storage_def prod_eq_iff empty_storage_def string_or_def)

lemma one_draft_list: "getDraftsList ''form1'' one_draft_storage = JArr [entry_d1]"
  using saveDraft_appends [OF one_draft_saved]
  by (simp add: empty_storage_list entry_d1_def)

lemma one_draft_accepts: "accepts one_draft_storage = (\<lambda>m k v. True)"
  by (simp add: one_draft_storage_def saveDraft_accepts empty_storage_def)

lemma decimal_2: "decimal 2 = ''2''"
  by (simp add: decimal.simps digit_char_def)

lemma two_drafts_saved:
  "saveDraft 2 ''u1'' ''u2'' ''u3'' ''u4'' ''form1'' ''Draft 2'' [(''q1'', JStr ''b'')]
     None one_draft_storage = (Inr ''draft-2'', two_drafts_storage)"
  using saveDraft_succeeds [OF one_draft_accepts one_draft_list, of 2 "''u1''" "''u2''" "''u3''"
      "''u4''" "''Draft 2''" "[(''q1'', JStr ''b'')]" None]
  by (simp add: two_drafts_storage_def prod_eq_iff string_or_def decimal_2)

lemma two_drafts_list: "getDraftsList ''form1'' two_drafts_storage = JArr [entry_d1, entry_d2]"
  using saveDraft_appends [OF two_drafts_saved]
  by (simp add: one_draft_list entry_d2_def)

lemma two_drafts_accepts: "accepts two_drafts_storage = (\<lambda>m k v. True)"
  by (simp add: two_drafts_storage_def saveDraft_accepts one_draft_accepts)

lemma resaved:
  "saveDraft 3 ''v1'' ''v2'' ''v3'' ''v4'' ''form1'' ''Draft 1 again'' [(''q1'', JStr ''c'')]
     (Some ''d1'') one_draft_storage = (Inr ''d1'', resaved_storage)"
  using saveDraft_succeeds [OF one_draft_accepts one_draft_list, of 3 "''v1''" "''v2''" "''v3''"
      "''v4''" "''Draft 1 again''" "[(''q1'', JStr ''c'')]" "Some ''d1''"]
  by (simp add: resaved_storage_def prod_eq_iff string_or_def)

text \<open>
  C8, as stated, fails: \<open>saveDraft\<close> never looks for an entry with the same id. Saving
  the draft \<open>d1\<close> a second time pushes a second entry with that id, and the index grows
  from 1 to 2.
\<close>

theorem resaved_draft_listed_twice:
  "getDraftsList ''form1'' one_draft_storage = JArr [entry_d1] \<and>
   get_prop entry_d1 ''id'' = JStr ''d1'' \<and>
   saveDraft 3 ''v1'' ''v2'' ''v3'' ''v4'' ''form1'' ''Draft 1 again'' [(''q1'', JStr ''c'')]
     (Some ''d1'') one_draft_storage = (Inr ''d1'', resaved_storage) \<and>
   getDraftsList ''form1'' resaved_storage = JArr [entry_d1, entry_d1_again] \<and>
   array_length (getDraftsList ''form1'' one_draft_storage) = 1 \<and>
   array_length (getDraftsList ''form1'' resaved_storage) = 2"
proof -
  have "getDraftsList ''form1'' resaved_storage = JArr [entry_d1, entry_d1_again]"
    using saveDraft_appends [OF resaved]
    by (simp add: one_draft_list entry_d1_again_def)
  then show ?thesis
    by (simp add: one_draft_list resaved entry_d1_def draftEntry_def lookup_def)
qed

text \<open>
  C8, amended. Every \<open>saveDraft\<close> call that returns appends exactly one entry
  \<open>{id, name, createdAt, updatedAt}\<close> to the form's draft index, so that
  \<open>getDraftsList(formId).length\<close> grows by exactly 1, whether or not the id was
  already listed. \<open>deleteDraft(formId, draftId)\<close>, when the index holds no null and the
  store accepts the write, removes the entries whose \<open>id\<close> is \<open>draftId\<close> and leaves
  every other entry in place.
\<close>

theorem draft_index_append_and_delete:
  "(saveDraft now t1 t2 t3 t4 formId name values draftId ls = (Inr newId, ls') \<longrightarrow>
      (\<exists>entries. getDraftsList formId ls = JArr entries \<and>
         getDraftsList formId ls' = JArr (entries @ [draftEntry newId name t3 t4]) \<and>
         array_length (getDraftsList formId ls') = array_length (getDraftsList formId ls) + 1)) \<and>
   (getDraftsList formId ls = JArr es \<and> JNull \<notin> set es \<and>
    accepts ls (items (removeItem ls (getDraftKey formId deleted))) (getDraftsListKey formId)
      (JSON_stringify (JArr (filter (\<lambda>d. get_prop d ''id'' \<noteq> JStr deleted) es))) \<longrightarrow>
      getDraftsList formId (deleteDraft formId deleted ls) =
        JArr (filter (\<lambda>d. get_prop d ''id'' \<noteq> JStr deleted) es))"
proof (intro conjI impI)
  assume "saveDraft now t1 t2 t3 t4 formId name values draftId ls = (Inr newId, ls')"
  from saveDraft_appends [OF this] obtain entries where
    "getDraftsList formId ls = JArr entries"
    "getDraftsList formId ls' = JArr (entries @ [draftEntry newId name t3 t4])"
    by blast
  then show "\<exists>entries. getDraftsList formId ls = JArr entries \<and>
         getDraftsList formId ls' = JArr (entries @ [draftEntry newId name t3 t4]) \<and>
         array_length (getDraftsList formId ls') = array_length (getDraftsList formId ls) + 1"
    by simp
next
  assume "getDraftsList formId ls = JArr es \<and> JNull \<notin> set es \<and>
    accepts ls (items (removeItem ls (getDraftKey formId deleted))) (getDraftsListKey formId)
      (JSON_stringify (JArr (filter (\<lambda>d. get_prop d ''id'' \<noteq> JStr deleted) es)))"
  then show "getDraftsList formId (deleteDraft formId deleted ls) =
        JArr (filter (\<lambda>d. get_prop d ''id'' \<noteq> JStr deleted) es)"
    by (simp add: deleteDraft_filters)
qed

theorem draft_index_append_and_delete_witness:
  "saveDraft 2 ''u1'' ''u2'' ''u3'' ''u4'' ''form1'' ''Draft 2'' [(''q1'', JStr ''b'')]
     None one_draft_storage = (Inr ''draft-2'', two_drafts_storage) \<and>
   getDraftsList ''form1'' one_draft_storage = JArr [entry_d1] \<and>
   getDraftsList ''form1'' two_drafts_storage = JArr [entry_d1, entry_d2] \<and>
   array_length (getDraftsList ''form1'' two_drafts_storage) = 2 \<and>
   JNull \<notin> set [entry_d1, entry_d2] \<and>
   accepts two_drafts_storage
     (items (removeItem two_drafts_storage (getDraftKey ''form1'' ''d1'')))
     (getDraftsListKey ''form1'') (JSON_stringify (JArr [entry_d2])) \<and>
   getDraftsList ''form1'' (deleteDraft ''form1'' ''d1'' two_drafts_storage) = JArr [entry_d2]"
proof -
  have ids: "get_prop entry_d1 ''id'' = JStr ''d1''" "get_prop entry_d2 ''id'' = JStr ''draft-2''"
    by (simp_all add: entry_d1_def entry_d2_def draftEntry_def lookup_def)
  have nonnull: "JNull \<notin> set [entry_d1, entry_d2]"
    by (simp add: entry_d1_def entry_d2_def draftEntry_def)
  have kept: "filter (\<lambda>d. get_prop d ''id'' \<noteq> JStr ''d1'') [entry_d1, entry_d2] = [entry_d2]"
    by (simp add: ids)
  have acc: "accepts two_drafts_storage
     (items (removeItem two_drafts_storage (getDraftKey ''form1'' ''d1'')))
     (getDraftsListKey ''form1'') (JSON_stringify (JArr [entry_d2]))"
    by (simp add: two_drafts_accepts)
  have grow: "\<exists>entries. getDraftsList ''form1'' one_draft_storage = JArr entries \<and>
         getDraftsList ''form1'' two_drafts_storage
           = JArr (entries @ [draftEntry ''draft-2'' ''Draft 2'' ''u3'' ''u4'']) \<and>
         array_length (getDraftsList ''form1'' two_drafts_storage)
           = array_length (getDraftsList ''form1'' one_draft_storage) + 1"
    using draft_index_append_and_delete [THEN conjunct1, rule_format, OF two_drafts_saved] .
  have shrink: "getDraftsList ''form1'' (deleteDraft ''form1'' ''d1'' two_drafts_storage) =
        JArr (filter (\<lambda>d. get_prop d ''id'' \<noteq> JStr ''d1'') [entry_d1, entry_d2])"
    using draft_index_append_and_delete [THEN conjunct2, rule_format,
        of "''form1''" two_drafts_storage "[entry_d1, entry_d2]" "''d1''"]
      two_drafts_list nonnull acc kept
    by simp
  from grow shrink show ?thesis
    using two_drafts_saved one_draft_list two_drafts_list nonnull acc kept
    by (simp add: entry_d2_def)
qed

end
